theory Spec2Isabelle
  imports Main "HOL-Library.Word"
begin

section \<open>Data model of the HTTP ingest core (server/mediaserver.go)\<close>

text \<open>
  Identities are Go strings (\<open>core.ManifestID\<close>). Points in time and durations are
  counted in nanoseconds, as \<open>time.Duration\<close> does.
\<close>

type_synonym ManifestID = string
type_synonym bytes = string
type_synonym Time = int

text \<open>The package-level error values of mediaserver.go; \<open>errOther\<close> carries the text of
  an error built with \<open>errors.New\<close> or \<open>fmt.Errorf\<close>, or returned by a library.\<close>

datatype error =
    errAlreadyExists
  | errStorage
  | errDiscovery
  | errNoOrchs
  | errUnknownStream
  | errMismatchedParams
  | errOther string

text \<open>\<open>ffmpeg.Format\<close> and the fields of \<open>ffmpeg.VideoProfile\<close> that mediaserver.go
  reads or writes.\<close>

datatype Format = FormatNone | FormatMPEGTS | FormatMP4

record VideoProfile =
  Name :: string
  Bitrate :: string
  Framerate :: nat
  FramerateDen :: nat
  Resolution :: string
  Profile :: nat
  GOP :: int
  Format :: Format

text \<open>Object storage: a driver opens sessions; only a \<open>*drivers.MemorySession\<close> keeps
  payloads that \<open>GetData\<close> can return (\<open>None\<close> is Go's nil slice).\<close>

datatype OSDriver = MemoryDriver | ExternalDriver string

datatype OSSession =
    MemorySession string "string \<Rightarrow> bytes option"
  | ExternalSession string string

fun NewSession :: "OSDriver \<Rightarrow> string \<Rightarrow> OSSession" where
  "NewSession MemoryDriver path = MemorySession path (\<lambda>_. None)"
| "NewSession (ExternalDriver u) path = ExternalSession u path"

text \<open>
  A \<open>[]ffmpeg.VideoProfile\<close> slice is a reference to a backing array: either the array
  of the package-level \<open>BroadcastJobVideoProfiles\<close>, or an array allocated later, named
  by its index in the heap of profile arrays. Two slices with the same reference share
  their elements.
\<close>

datatype slice = DefaultProfiles | Array nat

text \<open>\<open>core.StreamParameters\<close>. The fields \<open>Resolution\<close> and \<open>Format\<close> of the source are
  \<open>pResolution\<close> and \<open>pFormat\<close> here, the plain names being those of \<open>VideoProfile\<close>.\<close>

record StreamParameters =
  ManifestID :: ManifestID
  RtmpKey :: string
  Profiles :: slice
  pResolution :: string
  pFormat :: Format
  OS :: "OSSession option"
  RecordOS :: "OSSession option"
  Capabilities :: "nat list"

text \<open>\<open>stream.BasicRTMPVideoStream\<close>, \<open>core.BasicPlaylistManager\<close> and
  \<open>BroadcastSessionsManager\<close>, reduced to what the handlers of mediaserver.go call.\<close>

record RTMPVideoStream =
  AppData :: "StreamParameters option"
  Width :: nat
  Height :: nat
  closed :: bool

record PlaylistManager =
  plManifestID :: ManifestID
  osSession :: OSSession
  recordSession :: "OSSession option"
  plCleaned :: bool

record BroadcastSessionsManager =
  smCleaned :: bool

record rtmpConnection =
  mid :: ManifestID
  nonce :: "64 word"
  stream :: RTMPVideoStream
  pl :: "PlaylistManager option"
  profile :: VideoProfile
  params :: StreamParameters
  sessManager :: BroadcastSessionsManager
  lastUsed :: Time
  sourceBytes :: "64 word"
  transcodedBytes :: "64 word"

text \<open>
  The thread-sensitive fields of \<open>LivepeerServer\<close>, together with the memory they point
  into. \<open>rtmpConnections\<close> maps an identity to a \<open>*rtmpConnection\<close>: the address of a
  record in \<open>cxnHeap\<close> (its index). The only write to the map (registerConnection) stores
  a freshly allocated record, so no entry is a nil pointer. \<open>BroadcastJobVideoProfiles\<close>
  is the array of the package-level default profiles and \<open>profHeap\<close> holds the arrays
  allocated since. \<open>reapers\<close> lists the
  inactivity watchdogs that HandlePush has started and that have not returned, each with
  its \<open>(intmid, extmid)\<close> arguments.
\<close>

record LivepeerServer =
  rtmpConnections :: "ManifestID \<rightharpoonup> nat"
  internalManifests :: "ManifestID \<rightharpoonup> ManifestID"
  lastManifestID :: ManifestID
  cxnHeap :: "rtmpConnection list"
  profHeap :: "VideoProfile list list"
  BroadcastJobVideoProfiles :: "VideoProfile list"
  reapers :: "(ManifestID \<times> ManifestID) list"

text \<open>The JSON document of the authentication webhook.\<close>

record jsonProfile =
  jName :: string
  jWidth :: int
  jHeight :: int
  jBitrate :: int
  jFPS :: nat
  jFPSDen :: nat
  jProfile :: string
  jGOP :: string

record authWebhookResponse =
  aManifestID :: string
  aStreamKey :: string
  aPresets :: "string list"
  aObjectStore :: string
  aRecordObjectStore :: string
  aRecordObjectStoreURL :: string
  aProfiles :: "jsonProfile list"
  aPreviousSessions :: "string list"

section \<open>Decimal output\<close>

definition digit :: "nat \<Rightarrow> char" where
  "digit d = ''0123456789'' ! d"

fun showNat :: "nat \<Rightarrow> string" where
  "showNat n = (if n < 10 then [digit n] else showNat (n div 10) @ [digit (n mod 10)])"

declare showNat.simps [simp del]

definition showInt :: "int \<Rightarrow> string" where
  "showInt i = (if i < 0 then CHR ''-'' # showNat (nat (- i)) else showNat (nat i))"

section \<open>The authentication webhook\<close>

text \<open>
  What one request sees of the world outside mediaserver.go: process-wide settings, the
  answers of the network and of library calls, the clock and the random sources.
  \<open>httpPost\<close> is \<open>http.Post\<close> followed by \<open>ioutil.ReadAll\<close> of the response body: an
  error, or the status code with the bytes that were read (the source drops the error of
  \<open>ReadAll\<close>). \<open>jsonMarshal\<close> is \<open>json.Marshal\<close> on a \<open>map[string]string\<close>, which cannot
  fail.
\<close>

record webhookEnv =
  AuthWebhookURL :: string
  httpPost :: "string \<Rightarrow> string \<Rightarrow> error + (int \<times> bytes)"
  jsonMarshal :: "(string \<times> string) list \<Rightarrow> string"
  jsonUnmarshal :: "bytes \<Rightarrow> error + authWebhookResponse"

definition authenticateStream ::
  "'a webhookEnv_scheme \<Rightarrow> string \<Rightarrow> error + authWebhookResponse option" where
  "authenticateStream env url =
     (if AuthWebhookURL env = [] then Inr None
      else
        case httpPost env (AuthWebhookURL env) (jsonMarshal env [(''url'', url)]) of
          Inl err \<Rightarrow> Inl err
        | Inr (StatusCode, rbody) \<Rightarrow>
            if StatusCode \<noteq> 200 then
              Inl (errOther (''status='' @ showInt StatusCode @ '' error='' @ rbody))
            else if length rbody = 0 then Inr None
            else
              (case jsonUnmarshal env rbody of
                 Inl err \<Rightarrow> Inl err
               | Inr authResp \<Rightarrow>
                   if aManifestID authResp = [] then
                     Inl (errOther ''Empty manifest id not allowed'')
                   else Inr (Some authResp)))"

section \<open>Removing a stream\<close>

text \<open>What removeRTMPStream does to the record it ends: \<open>cxn.stream.Close()\<close>,
  \<open>cxn.sessManager.cleanup()\<close> and \<open>cxn.pl.Cleanup()\<close>.\<close>

definition endConnection :: "rtmpConnection \<Rightarrow> rtmpConnection" where
  "endConnection cxn =
     cxn\<lparr>stream := (stream cxn)\<lparr>closed := True\<rparr>,
         sessManager := (sessManager cxn)\<lparr>smCleaned := True\<rparr>,
         pl := map_option (\<lambda>p. p\<lparr>plCleaned := True\<rparr>) (pl cxn)\<rparr>"

text \<open>The internal identity that removeRTMPStream, HandlePush and the handlers index
  \<open>rtmpConnections\<close> with, given the identity they were called with.\<close>

definition resolveManifest :: "LivepeerServer \<Rightarrow> ManifestID \<Rightarrow> ManifestID" where
  "resolveManifest s extmid =
     (case internalManifests s extmid of Some intmid \<Rightarrow> intmid | None \<Rightarrow> extmid)"

definition removeRTMPStream :: "LivepeerServer \<Rightarrow> ManifestID \<Rightarrow> LivepeerServer \<times> error option" where
  "removeRTMPStream s extmid =
     (let intmid = resolveManifest s extmid in
      case rtmpConnections s intmid of
        None \<Rightarrow> (s, Some errUnknownStream)
      | Some p \<Rightarrow>
          if pl (cxnHeap s ! p) = None then (s, Some errUnknownStream)
          else
            (s\<lparr>cxnHeap := (cxnHeap s)[p := endConnection (cxnHeap s ! p)],
               rtmpConnections := (rtmpConnections s)(intmid := None),
               internalManifests := (internalManifests s)(extmid := None)\<rparr>,
             None))"


section \<open>Request URLs and paths\<close>

text \<open>\<open>url.URL\<close> of the Go library, with the fields that \<open>String\<close> prints.\<close>

record URL =
  Scheme :: string
  Opaque :: string
  User :: "string option"
  Host :: string
  Path :: string
  RawPath :: string
  ForceQuery :: bool
  RawQuery :: string
  Fragment :: string

record StreamID =
  sidManifestID :: ManifestID
  sidRendition :: string

text \<open>\<open>path.Ext\<close>: the suffix that starts at the last dot of the last element of the path,
  empty when that element has no dot. \<open>extScan\<close> walks the reversed path.\<close>

fun extScan :: "string \<Rightarrow> string \<Rightarrow> string" where
  "extScan [] acc = []"
| "extScan (c # cs) acc =
     (if c = CHR ''/'' then []
      else if c = CHR ''.'' then c # acc
      else extScan cs (c # acc))"

definition path_Ext :: "string \<Rightarrow> string" where
  "path_Ext p = extScan (rev p) []"

text \<open>\<open>strings.TrimSuffix\<close>.\<close>

definition TrimSuffix :: "string \<Rightarrow> string \<Rightarrow> string" where
  "TrimSuffix s suffix =
     (if length suffix \<le> length s \<and> drop (length s - length suffix) s = suffix
      then take (length s - length suffix) s else s)"

text \<open>\<open>path.Base\<close>: the last element of the path, after the trailing slashes are dropped.\<close>

definition path_Base :: "string \<Rightarrow> string" where
  "path_Base p =
     (if p = [] then ''.''
      else
        let stripped = rev (dropWhile (\<lambda>c. c = CHR ''/'') (rev p));
            last_elem = rev (takeWhile (\<lambda>c. c \<noteq> CHR ''/'') (rev stripped))
        in if last_elem = [] then ''/'' else last_elem)"

text \<open>\<open>strconv.ParseUint(s, 10, 64)\<close> and \<open>strconv.Atoi\<close> on a 64-bit platform: decimal
  digits only (\<open>Atoi\<close> allows one leading sign), at least one, and the value in range.\<close>

definition isDigit :: "char \<Rightarrow> bool" where
  "isDigit c = ((48::nat) \<le> of_char c \<and> of_char c \<le> (57::nat))"

definition digitsVal :: "string \<Rightarrow> nat" where
  "digitsVal ds = foldl (\<lambda>n c. 10 * n + (of_char c - 48)) 0 ds"

definition ParseUint :: "string \<Rightarrow> error + nat" where
  "ParseUint str =
     (if str \<noteq> [] \<and> list_all isDigit str \<and> digitsVal str < 2 ^ 64 then Inr (digitsVal str)
      else Inl (errOther ''strconv.ParseUint''))"

definition Atoi :: "string \<Rightarrow> error + int" where
  "Atoi str =
     (let neg = (str \<noteq> [] \<and> hd str = CHR ''-'');
          ds = (if str \<noteq> [] \<and> (hd str = CHR ''-'' \<or> hd str = CHR ''+'') then tl str else str);
          v = (if neg then - int (digitsVal ds) else int (digitsVal ds))
      in if ds \<noteq> [] \<and> list_all isDigit ds \<and> - (2 ^ 63) \<le> v \<and> v < 2 ^ 63 then Inr v
         else Inl (errOther ''strconv.Atoi''))"

text \<open>
  Modelled from the spec: \<open>common.ProfileExtensionFormat\<close> is not under src/. The spec's
  path parser maps \<open>.ts\<close> to MPEG-TS, \<open>.mp4\<close> to MP4 and any other extension to
  \<open>FormatNone\<close>.
\<close>

definition ProfileExtensionFormat :: "string \<Rightarrow> Format" where
  "ProfileExtensionFormat ext =
     (if ext = ''.ts'' then FormatMPEGTS
      else if ext = ''.mp4'' then FormatMP4
      else FormatNone)"

section \<open>The environment of a request\<close>

text \<open>
  The rest of what a request sees from outside mediaserver.go.
  \<^item> \<open>escapeHost\<close>, \<open>escapePath\<close>, \<open>escapeFragment\<close>: the percent-encoding that
    \<open>(*url.URL).String\<close> applies to the host, to the path (\<open>EscapedPath\<close> of a URL with
    an empty \<open>RawPath\<close>) and to the fragment.
  \<^item> \<open>parseStreamID\<close>: the source's parseStreamID, which trims the extension, applies the
    regular expression \<open>StreamPrefix\<close> and calls \<open>core.SplitStreamIDString\<close>.
  \<^item> \<open>lookupPreset v\<close>: \<open>ffmpeg.VideoProfileLookup[strings.TrimSpace(v)]\<close>.
  \<^item> \<open>DefaultProfileName\<close>, \<open>EncoderProfileNameToValue\<close>, \<open>ParseOSURL\<close>,
    \<open>JobCapabilities\<close>: the functions of \<open>common\<close>, \<open>drivers\<close> and \<open>core\<close> of these names.
  \<^item> \<open>gopDuration g\<close>: \<open>strconv.ParseFloat\<close> of a GOP string, the check that it is
    positive and its conversion to a duration; \<open>GOPIntraOnly\<close> is the constant of
    \<open>ffmpeg\<close>.
  \<^item> \<open>NodeStorage\<close>, \<open>RecordStorage\<close>, \<open>NodeID\<close>, \<open>MaxSessions\<close>, \<open>httpPushTimeout\<close>: the
    package-level variables.
  \<^item> \<open>RandomManifestID\<close>, \<open>RandomIDGenerator\<close>, \<open>randUint64\<close>, \<open>RandName\<close>: the values the
    random sources return to this request.
  \<^item> \<open>timeNow\<close> is \<open>time.Now()\<close> at the start of HandlePush and \<open>timeNowRegister\<close> the
    later \<open>time.Now()\<close> in registerConnection.
  \<^item> \<open>rangeOrder\<close>: the order in which \<open>range s.internalManifests\<close> yields the keys of
    the map; Go leaves it unspecified.
  \<^item> \<open>processSegment\<close>: see below.
  \<^item> \<open>ProfileFormatExtension\<close>, \<open>ProfileFormatMimeType\<close>: the tables of \<open>common\<close>.
  \<^item> \<open>createPartErr i\<close>, \<open>writeErr i\<close>, \<open>closeErr\<close>: the error, if any, with which the
    response writer answers \<open>CreatePart\<close> and the write of the body of part \<open>i\<close>, and
    \<open>mw.Close()\<close>.
\<close>

record HLSSegment =
  Data :: bytes
  SegName :: string
  SeqNo :: nat
  DurationMs :: int

text \<open>
  Modelled from the spec: processSegment is not under src/. Given a connection and a
  segment it returns an ordered list of rendition URIs or an error, and reads rendition
  payloads into the in-memory store of the connection's session; it also advances the two
  byte counters.
\<close>

record segmentOutcome =
  segURLs :: "error + string list"
  segStored :: "(string \<times> bytes) list"
  segSourceBytes :: "64 word"
  segTranscodedBytes :: "64 word"

record env = webhookEnv +
  escapeHost :: "string \<Rightarrow> string"
  escapePath :: "string \<Rightarrow> string"
  escapeFragment :: "string \<Rightarrow> string"
  parseStreamID :: "string \<Rightarrow> StreamID"
  lookupPreset :: "string \<Rightarrow> VideoProfile option"
  DefaultProfileName :: "int \<Rightarrow> int \<Rightarrow> int \<Rightarrow> string"
  EncoderProfileNameToValue :: "string \<Rightarrow> error + nat"
  gopDuration :: "string \<Rightarrow> error + int"
  GOPIntraOnly :: int
  ParseOSURL :: "string \<Rightarrow> bool \<Rightarrow> error + OSDriver"
  JobCapabilities :: "StreamParameters \<Rightarrow> error + nat list"
  NodeStorage :: "OSDriver option"
  RecordStorage :: "OSDriver option"
  NodeID :: string
  MaxSessions :: int
  httpPushTimeout :: Time
  RandomManifestID :: ManifestID
  RandomIDGenerator :: string
  randUint64 :: "64 word"
  RandName :: string
  timeNow :: Time
  timeNowRegister :: Time
  rangeOrder :: "ManifestID list"
  processSegment :: "rtmpConnection \<Rightarrow> HLSSegment \<Rightarrow> segmentOutcome"
  ProfileFormatExtension :: "Format \<Rightarrow> error + string"
  ProfileFormatMimeType :: "Format \<Rightarrow> error + string"
  createPartErr :: "nat \<Rightarrow> error option"
  writeErr :: "nat \<Rightarrow> error option"
  closeErr :: "error option"

text \<open>\<open>(*url.URL).String\<close>.\<close>

definition URL_String :: "env \<Rightarrow> URL \<Rightarrow> string" where
  "URL_String env u =
     (let buf0 = (if Scheme u \<noteq> [] then Scheme u @ '':'' else []);
          buf1 =
            (if Opaque u \<noteq> [] then buf0 @ Opaque u
             else
               let authority =
                     (if Scheme u \<noteq> [] \<or> Host u \<noteq> [] \<or> User u \<noteq> None then
                        (if Host u \<noteq> [] \<or> Path u \<noteq> [] \<or> User u \<noteq> None then ''//'' else [])
                        @ (case User u of Some ui \<Rightarrow> ui @ ''@'' | None \<Rightarrow> [])
                        @ (if Host u \<noteq> [] then escapeHost env (Host u) else [])
                      else []);
                   buf = buf0 @ authority;
                   path = escapePath env (Path u);
                   slash = (if path \<noteq> [] \<and> hd path \<noteq> CHR ''/'' \<and> Host u \<noteq> [] then ''/'' else []);
                   dot =
                     (if buf @ slash = [] \<and> CHR '':'' \<in> set path
                         \<and> CHR ''/'' \<notin> set (takeWhile (\<lambda>c. c \<noteq> CHR '':'') path)
                      then ''./'' else [])
               in buf @ slash @ dot @ path);
          buf2 = (if ForceQuery u \<or> RawQuery u \<noteq> [] then buf1 @ ''?'' @ RawQuery u else buf1)
      in if Fragment u \<noteq> [] then buf2 @ ''#'' @ escapeFragment env (Fragment u) else buf2)"

definition parseManifestID :: "env \<Rightarrow> string \<Rightarrow> ManifestID" where
  "parseManifestID env reqPath = sidManifestID (parseStreamID env reqPath)"

section \<open>Creating stream parameters\<close>

fun parsePresets :: "env \<Rightarrow> string list \<Rightarrow> VideoProfile list" where
  "parsePresets env [] = []"
| "parsePresets env (v # vs) =
     (case lookupPreset env v of
        Some p \<Rightarrow> p # parsePresets env vs
      | None \<Rightarrow> parsePresets env vs)"

definition jsonProfile1 :: "env \<Rightarrow> jsonProfile \<Rightarrow> error + VideoProfile" where
  "jsonProfile1 env jp =
     (let name = (if jName jp = [] then
                    ''webhook_'' @ DefaultProfileName env (jWidth jp) (jHeight jp) (jBitrate jp)
                  else jName jp);
          gop = (if jGOP jp \<noteq> [] then
                   (if jGOP jp = ''intra'' then Inr (GOPIntraOnly env) else gopDuration env (jGOP jp))
                 else Inr 0)
      in case gop of
           Inl err \<Rightarrow> Inl err
         | Inr g \<Rightarrow>
             (case EncoderProfileNameToValue env (jProfile jp) of
                Inl err \<Rightarrow> Inl err
              | Inr encodingProfile \<Rightarrow>
                  Inr \<lparr>Name = name, Bitrate = showInt (jBitrate jp), Framerate = jFPS jp,
                       FramerateDen = jFPSDen jp,
                       Resolution = showInt (jWidth jp) @ ''x'' @ showInt (jHeight jp),
                       Profile = encodingProfile, GOP = g, Format = FormatNone\<rparr>))"

fun jsonProfiles :: "env \<Rightarrow> jsonProfile list \<Rightarrow> error + VideoProfile list" where
  "jsonProfiles env [] = Inr []"
| "jsonProfiles env (jp # jps) =
     (case jsonProfile1 env jp of
        Inl err \<Rightarrow> Inl err
      | Inr prof \<Rightarrow>
          (case jsonProfiles env jps of
             Inl err \<Rightarrow> Inl err
           | Inr profs \<Rightarrow> Inr (prof # profs)))"

definition jsonProfileToVideoProfile :: "env \<Rightarrow> authWebhookResponse \<Rightarrow> error + VideoProfile list" where
  "jsonProfileToVideoProfile env resp = jsonProfiles env (aProfiles resp)"

text \<open>
  The part of createRTMPStreamIDHandler that reads the webhook's answer (\<open>resp\<close>): the
  identity and key it names, the contents of the local slice \<open>profiles\<close>, and the two
  storage drivers. \<open>None\<close> is the handler's \<open>return nil\<close>. When the answer names neither
  presets nor profiles, or when there is no answer, the local slice is
  \<open>BroadcastJobVideoProfiles\<close> itself; the handler only reads it before it copies it.
\<close>

definition webhookParams ::
  "env \<Rightarrow> LivepeerServer \<Rightarrow> authWebhookResponse option \<Rightarrow>
     (ManifestID \<times> string \<times> VideoProfile list \<times> OSDriver option \<times> OSDriver option) option" where
  "webhookParams env s resp =
     (case resp of
        None \<Rightarrow> Some ([], [], BroadcastJobVideoProfiles s, None, None)
      | Some r \<Rightarrow>
          let profiles0 = (if length (aPresets r) > 0 then parsePresets env (aPresets r) else [])
          in case jsonProfileToVideoProfile env r of
               Inl err \<Rightarrow> None
             | Inr parsedProfiles \<Rightarrow>
                 let profiles1 = profiles0 @ parsedProfiles;
                     profiles = (if length (aProfiles r) \<le> 0 \<and> length (aPresets r) \<le> 0
                                 then BroadcastJobVideoProfiles s else profiles1);
                     os = (if aObjectStore r \<noteq> [] then
                             map_sum id Some (ParseOSURL env (aObjectStore r) False)
                           else Inr None);
                     ros = (if aRecordObjectStore r \<noteq> [] then
                              map_sum id Some (ParseOSURL env (aRecordObjectStore r) True)
                            else Inr None)
                 in case os of
                      Inl err \<Rightarrow> None
                    | Inr osd \<Rightarrow>
                        (case ros of
                           Inl err \<Rightarrow> None
                         | Inr rosd \<Rightarrow>
                             Some (parseManifestID env (aManifestID r), aStreamKey r, profiles,
                                   osd, rosd)))"

text \<open>
  createRTMPStreamIDHandler. The returned parameters hold a copy of the local slice
  (\<open>append([]ffmpeg.VideoProfile(nil), profiles...)\<close>): a new array in the heap.
\<close>

definition createRTMPStreamIDHandler ::
  "env \<Rightarrow> LivepeerServer \<Rightarrow> URL \<Rightarrow> LivepeerServer \<times> StreamParameters option" where
  "createRTMPStreamIDHandler env s url =
     (case authenticateStream env (URL_String env url) of
        Inl err \<Rightarrow> (s, None)
      | Inr resp \<Rightarrow>
          (case webhookParams env s resp of
             None \<Rightarrow> (s, None)
           | Some (mid0, key0, profiles, os, ros) \<Rightarrow>
               let sid = parseStreamID env (Path url);
                   extmid = sidManifestID sid;
                   mid1 = (if mid0 = [] then sidManifestID sid else mid0);
                   key1 = (if mid0 = [] then sidRendition sid else key0);
                   mid = (if mid1 = [] then RandomManifestID env else mid1);
                   key = (if key1 = [] then RandomIDGenerator env else key1);
                   oss = map_option (\<lambda>d. NewSession d mid) os;
                   recordPath = extmid @ ''/'' @ NodeID env;
                   ross = (case ros of
                             Some d \<Rightarrow> Some (NewSession d recordPath)
                           | None \<Rightarrow> map_option (\<lambda>d. NewSession d recordPath) (RecordStorage env))
               in if MaxSessions env > 0
                     \<and> int (card (dom (rtmpConnections s))) \<ge> MaxSessions env
                  then (s, None)
                  else
                    (s\<lparr>profHeap := profHeap s @ [profiles]\<rparr>,
                     Some \<lparr>ManifestID = mid, RtmpKey = key,
                           Profiles = Array (length (profHeap s)),
                           pResolution = [], pFormat = FormatNone,
                           OS = oss, RecordOS = ross, Capabilities = []\<rparr>)))"

section \<open>Registering a connection\<close>

text \<open>
  registerConnection returns the connection (its address) and the error;
  with \<open>errAlreadyExists\<close> it returns both. The source reads the map twice, under the
  read lock and again under the write lock; between two requests that run one after the
  other the second read sees what the first saw.
\<close>

definition registerConnection ::
  "env \<Rightarrow> LivepeerServer \<Rightarrow> RTMPVideoStream \<Rightarrow> LivepeerServer \<times> nat option \<times> error option" where
  "registerConnection env s rtmpStrm =
     (case AppData rtmpStrm of
        None \<Rightarrow> (s, None, Some errMismatchedParams)
      | Some params0 \<Rightarrow>
          (case NodeStorage env of
             None \<Rightarrow> (s, None, Some errStorage)
           | Some nodeStorage \<Rightarrow>
               let m = ManifestID params0;
                   params1 = (if pResolution params0 = [] then
                                params0\<lparr>pResolution :=
                                  showNat (Width rtmpStrm) @ ''x'' @ showNat (Height rtmpStrm)\<rparr>
                              else params0);
                   storage = (case OS params1 of
                                None \<Rightarrow> NewSession nodeStorage m
                              | Some oss \<Rightarrow> oss);
                   params2 = params1\<lparr>OS := Some storage\<rparr>
               in case JobCapabilities env params2 of
                    Inl err \<Rightarrow> (s, None, Some err)
                  | Inr caps \<Rightarrow>
                      let params3 = params2\<lparr>Capabilities := caps\<rparr>;
                          vProfile = \<lparr>Name = ''source'', Bitrate = ''4000k'', Framerate = 0,
                                      FramerateDen = 0, Resolution = pResolution params3,
                                      Profile = 0, GOP = 0, Format = pFormat params3\<rparr>
                      in case rtmpConnections s m of
                           Some oldCxn \<Rightarrow> (s, Some oldCxn, Some errAlreadyExists)
                         | None \<Rightarrow>
                             let playlist = \<lparr>plManifestID = m, osSession = storage,
                                              recordSession = RecordOS params3,
                                              plCleaned = False\<rparr>;
                                 cxn = \<lparr>mid = m, nonce = randUint64 env,
                                        stream = rtmpStrm\<lparr>AppData := Some params3\<rparr>,
                                        pl = Some playlist, profile = vProfile,
                                        params = params3,
                                        sessManager = \<lparr>smCleaned = False\<rparr>,
                                        lastUsed = timeNowRegister env,
                                        sourceBytes = 0, transcodedBytes = 0\<rparr>
                             in case rtmpConnections s m of
                                  Some oldCxn \<Rightarrow> (s, Some oldCxn, Some errAlreadyExists)
                                | None \<Rightarrow>
                                    (s\<lparr>cxnHeap := cxnHeap s @ [cxn],
                                       rtmpConnections :=
                                         (rtmpConnections s)(m \<mapsto> length (cxnHeap s)),
                                       lastManifestID := m\<rparr>,
                                     Some (length (cxnHeap s)), None)))"

section \<open>HandlePush\<close>

text \<open>
  A push request as HandlePush reads it. \<open>Header k\<close> is \<open>r.Header.Get(k)\<close>, empty when
  the header is absent; \<open>Body\<close> is the result of \<open>ioutil.ReadAll(r.Body)\<close>; \<open>ctxDone\<close>
  tells whether \<open>r.Context()\<close> is done when processSegment has returned.
\<close>

record Request =
  Method :: string
  reqURL :: URL
  reqHost :: string
  Header :: "string \<Rightarrow> string"
  Body :: "error + bytes"
  ctxDone :: bool

record part =
  ContentType :: string
  ContentLength :: string
  ContentDisposition :: string
  RenditionName :: string
  partBody :: bytes

text \<open>
  What the client gets: \<open>http.Error\<close> with a status and a message; nothing at all when
  its context is done; status 200 with an empty body; status 200 with a multipart body
  (the boundary, the parts written in full, and the error left in \<open>err\<close> after the loop
  and \<open>mw.Close()\<close>); or a run-time panic of the handler.
\<close>

datatype Response =
    HttpError nat string
  | Silent
  | Ok200
  | Multipart string "part list" "error option"
  | Panic

fun Error :: "error \<Rightarrow> string" where
  "Error errAlreadyExists = ''StreamAlreadyExists''"
| "Error errStorage = ''ErrStorage''"
| "Error errDiscovery = ''ErrDiscovery''"
| "Error errNoOrchs = ''ErrNoOrchs''"
| "Error errUnknownStream = ''ErrUnknownStream''"
| "Error errMismatchedParams = ''Mismatched type for stream params''"
| "Error (errOther msg) = msg"

text \<open>The URL that replaces \<open>r.URL\<close>:
  \<open>&url.URL{Scheme: "http", Host: r.Host, Path: r.URL.Path}\<close>.\<close>

definition pushURL :: "Request \<Rightarrow> URL" where
  "pushURL r =
     \<lparr>Scheme = ''http'', Opaque = [], User = None, Host = reqHost r,
      Path = Path (reqURL r), RawPath = [], ForceQuery = False, RawQuery = [],
      Fragment = []\<rparr>"

text \<open>Reading and writing the elements of a slice through its reference.\<close>

definition readSlice :: "LivepeerServer \<Rightarrow> slice \<Rightarrow> VideoProfile list" where
  "readSlice s sl =
     (case sl of
        DefaultProfiles \<Rightarrow> BroadcastJobVideoProfiles s
      | Array a \<Rightarrow> (if a < length (profHeap s) then profHeap s ! a else []))"

definition storeFormat :: "LivepeerServer \<Rightarrow> slice \<Rightarrow> nat \<Rightarrow> Format \<Rightarrow> LivepeerServer" where
  "storeFormat s sl i format =
     (case sl of
        DefaultProfiles \<Rightarrow>
          s\<lparr>BroadcastJobVideoProfiles :=
              (BroadcastJobVideoProfiles s)
                [i := (BroadcastJobVideoProfiles s ! i)\<lparr>Format := format\<rparr>]\<rparr>
      | Array a \<Rightarrow>
          s\<lparr>profHeap :=
              (profHeap s)[a := (profHeap s ! a)[i := (profHeap s ! a ! i)\<lparr>Format := format\<rparr>]]\<rparr>)"

text \<open>The loop \<open>for i, v := range params.Profiles\<close> that sets the output formats: \<open>vs\<close> are
  the elements still to visit, \<open>i\<close> the index of the first of them.\<close>

fun setOutputFormats ::
  "Format \<Rightarrow> slice \<Rightarrow> nat \<Rightarrow> VideoProfile list \<Rightarrow> LivepeerServer \<Rightarrow> LivepeerServer" where
  "setOutputFormats format sl i [] s = s"
| "setOutputFormats format sl i (v # vs) s =
     setOutputFormats format sl (Suc i) vs
       (if Format v = FormatNone then storeFormat s sl i format else s)"

text \<open>The loop \<open>for k, v := range s.internalManifests\<close> that looks for the external
  identity bound to \<open>target\<close>; \<open>oldStreamID\<close> stays empty when there is none.\<close>

fun findOldStreamID ::
  "ManifestID list \<Rightarrow> (ManifestID \<rightharpoonup> ManifestID) \<Rightarrow> ManifestID \<Rightarrow> ManifestID" where
  "findOldStreamID [] im target = []"
| "findOldStreamID (k # ks) im target =
     (if im k = Some target then k else findOldStreamID ks im target)"

text \<open>HandlePush, the block that ends the stream of an older external identity when the
  new stream has the same underlying manifest.\<close>

definition endOldStream ::
  "env \<Rightarrow> LivepeerServer \<Rightarrow> ManifestID \<Rightarrow> StreamParameters \<Rightarrow> LivepeerServer" where
  "endOldStream env s m prms =
     (if m \<noteq> ManifestID prms \<and> rtmpConnections s (ManifestID prms) \<noteq> None
         \<and> (internalManifests s m = None \<or> internalManifests s m = Some [])
      then
        let oldStreamID = findOldStreamID (rangeOrder env) (internalManifests s) (ManifestID prms)
        in if oldStreamID \<noteq> [] \<and> m \<noteq> oldStreamID then fst (removeRTMPStream s oldStreamID)
           else s
      else s)"

text \<open>HandlePush, after registerConnection: the mapping from the identity of the request
  to the identity of the connection, when they differ. The result carries the identity
  that the rest of the handler uses.\<close>

definition bindInternalManifest ::
  "LivepeerServer \<Rightarrow> nat \<Rightarrow> ManifestID \<Rightarrow> LivepeerServer \<times> ManifestID" where
  "bindInternalManifest s cxn m =
     (if mid (cxnHeap s ! cxn) \<noteq> m then
        (s\<lparr>internalManifests := (internalManifests s)(m \<mapsto> mid (cxnHeap s ! cxn))\<rparr>,
         mid (cxnHeap s ! cxn))
      else (s, m))"

text \<open>HandlePush, the branch \<open>if !exists\<close>, in four parts. First the parameters that
  createRTMPStreamIDHandler returned take the resolution and the format of the request.\<close>

definition pushParams :: "Request \<Rightarrow> Format \<Rightarrow> StreamParameters \<Rightarrow> StreamParameters" where
  "pushParams r format params0 =
     params0\<lparr>pResolution := Header r ''Content-Resolution'', pFormat := format\<rparr>"

text \<open>Then an older stream with the same manifest is ended and the loop over
  \<open>params.Profiles\<close> sets the output formats.\<close>

definition prepareStream ::
  "env \<Rightarrow> LivepeerServer \<Rightarrow> ManifestID \<Rightarrow> Format \<Rightarrow> StreamParameters \<Rightarrow> LivepeerServer" where
  "prepareStream env s m format prms =
     (let s2 = endOldStream env s m prms
      in setOutputFormats format (Profiles prms) 0 (readSlice s2 (Profiles prms)) s2)"

text \<open>Then the stream is registered: on success the watchdog starts, and with
  \<open>errAlreadyExists\<close> the handler goes on with the connection that exists; in both cases
  the identities are bound.\<close>

definition registerStream ::
  "env \<Rightarrow> LivepeerServer \<Rightarrow> URL \<Rightarrow> ManifestID \<Rightarrow> StreamParameters \<Rightarrow>
     LivepeerServer \<times> (Response + nat \<times> ManifestID)" where
  "registerStream env s url m prms =
     (case registerConnection env s \<lparr>AppData = Some prms, Width = 0, Height = 0, closed = False\<rparr> of
        (s4, cxn, Some err) \<Rightarrow>
          if err \<noteq> errAlreadyExists then
            (s4, Inl (HttpError 500
               (''http push error url='' @ URL_String env url @ '' err='' @ Error err)))
          else
            (case cxn of
               None \<Rightarrow> (s4, Inl Panic)
             | Some c \<Rightarrow>
                 (case bindInternalManifest s4 c m of (s5, m') \<Rightarrow> (s5, Inr (c, m'))))
      | (s4, cxn, None) \<Rightarrow>
          (case cxn of
             None \<Rightarrow> (s4, Inl Panic)
           | Some c \<Rightarrow>
               let s5 = s4\<lparr>reapers := reapers s4 @ [(mid (cxnHeap s4 ! c), m)]\<rparr>
               in case bindInternalManifest s5 c m of (s6, m') \<Rightarrow> (s6, Inr (c, m'))))"

definition registerPush ::
  "env \<Rightarrow> LivepeerServer \<Rightarrow> Request \<Rightarrow> URL \<Rightarrow> Format \<Rightarrow> ManifestID \<Rightarrow>
     LivepeerServer \<times> (Response + nat \<times> ManifestID)" where
  "registerPush env s r url format m =
     (case createRTMPStreamIDHandler env s url of
        (s1, None) \<Rightarrow>
          (s1, Inl (HttpError 500 (''Could not create stream ID: url='' @ URL_String env url)))
      | (s1, Some params0) \<Rightarrow>
          let prms = pushParams r format params0
          in registerStream env (prepareStream env s1 m format prms) url m prms)"

text \<open>HandlePush, from \<open>s.connectionLock.RLock()\<close> to the end of the branch
  \<open>if !exists\<close>: the connection of the request and the identity it goes by.\<close>

definition bindConnection ::
  "env \<Rightarrow> LivepeerServer \<Rightarrow> Request \<Rightarrow> URL \<Rightarrow> Format \<Rightarrow> ManifestID \<Rightarrow>
     LivepeerServer \<times> (Response + nat \<times> ManifestID)" where
  "bindConnection env s r url format m0 =
     (let m = resolveManifest s m0 in
      case rtmpConnections s m of
        Some cxn \<Rightarrow>
          (s\<lparr>cxnHeap := (cxnHeap s)[cxn := (cxnHeap s ! cxn)\<lparr>lastUsed := timeNow env\<rparr>]\<rparr>,
           Inr (cxn, m))
      | None \<Rightarrow> registerPush env s r url format m)"

text \<open>The multipart response. \<open>partFor\<close> is the body of the loop over the rendition URIs up
  to \<open>mw.CreatePart\<close>, at index \<open>i\<close>: the part to write, a \<open>break\<close> with an error, or the
  panic of an index out of range.\<close>

datatype partStep = StepPanic | StepBreak error | StepPart part

definition mkPart :: "string \<Rightarrow> string \<Rightarrow> nat \<Rightarrow> string \<Rightarrow> nat \<Rightarrow> bytes \<Rightarrow> part" where
  "mkPart typ ext len prof seq body =
     (let fname = ''\"'' @ prof @ ''_'' @ showNat seq @ ext @ ''\"''
      in \<lparr>ContentType = typ @ ''; name='' @ fname,
          ContentLength = showNat len,
          ContentDisposition = ''attachment; filename='' @ fname,
          RenditionName = prof,
          partBody = body\<rparr>)"

definition partFor ::
  "env \<Rightarrow> VideoProfile list \<Rightarrow> nat \<Rightarrow> nat \<Rightarrow> string \<Rightarrow> bytes \<Rightarrow> partStep" where
  "partFor env profiles seq i url rdata =
     (if length rdata = 0 then
        (if i < length profiles then
           StepPart (mkPart ''application/vnd+livepeer.uri'' ''.txt'' (length url)
                       (Name (profiles ! i)) seq url)
         else StepPanic)
      else if \<not> i < length profiles then StepPanic
      else
        (case ProfileFormatExtension env (Format (profiles ! i)) of
           Inl err \<Rightarrow> StepBreak err
         | Inr ext \<Rightarrow>
             let typ = (case ProfileFormatMimeType env (Format (profiles ! i)) of
                          Inl err \<Rightarrow> []
                        | Inr t \<Rightarrow> t)
             in StepPart (mkPart typ ext (length rdata) (Name (profiles ! i)) seq rdata)))"

datatype partsResult = PartsPanic | PartsDone "part list" "error option"

text \<open>The loop \<open>for i, url := range urls\<close>; each URI comes with its entry of
  \<open>renditionData\<close>. A part counts as written when its body has been written.\<close>

fun writeParts ::
  "env \<Rightarrow> VideoProfile list \<Rightarrow> nat \<Rightarrow> nat \<Rightarrow> (string \<times> bytes) list \<Rightarrow> part list \<Rightarrow> partsResult" where
  "writeParts env profiles seq i [] acc = PartsDone acc None"
| "writeParts env profiles seq i (ud # rest) acc =
     (case partFor env profiles seq i (fst ud) (snd ud) of
        StepPanic \<Rightarrow> PartsPanic
      | StepBreak err \<Rightarrow> PartsDone acc (Some err)
      | StepPart p \<Rightarrow>
          (case createPartErr env i of
             Some err \<Rightarrow> PartsDone acc (Some err)
           | None \<Rightarrow>
               (case writeErr env i of
                  Some err \<Rightarrow> PartsDone acc (Some err)
                | None \<Rightarrow> writeParts env profiles seq (Suc i) rest (acc @ [p]))))"

text \<open>\<open>renditionData\<close>: for each URI the payload that the connection's session holds under
  it when the session is a memory session, and nil otherwise.\<close>

definition renditionData :: "PlaylistManager \<Rightarrow> string list \<Rightarrow> bytes list" where
  "renditionData pm urls =
     (case osSession pm of
        MemorySession path dCache \<Rightarrow>
          map (\<lambda>fname. case dCache fname of Some d \<Rightarrow> d | None \<Rightarrow> []) urls
      | ExternalSession u path \<Rightarrow> map (\<lambda>fname. []) urls)"

text \<open>The payload that the session of a playlist manager holds under a URI: empty when it
  holds none, or when it is not a memory session.\<close>

definition storedPayload :: "PlaylistManager \<Rightarrow> string \<Rightarrow> bytes" where
  "storedPayload pm uri =
     (case osSession pm of
        MemorySession path dCache \<Rightarrow> (case dCache uri of Some d \<Rightarrow> d | None \<Rightarrow> [])
      | ExternalSession u path \<Rightarrow> [])"

definition respondPush ::
  "env \<Rightarrow> rtmpConnection \<Rightarrow> VideoProfile list \<Rightarrow> Request \<Rightarrow> nat \<Rightarrow> string list \<Rightarrow> Response" where
  "respondPush env cxn profiles r seq urls =
     (case pl cxn of
        None \<Rightarrow> Panic
      | Some pm \<Rightarrow>
          if Header r ''Accept'' \<noteq> ''multipart/mixed'' then Ok200
          else
            (case writeParts env profiles seq 0 (zip urls (renditionData pm urls)) [] of
               PartsPanic \<Rightarrow> Panic
             | PartsDone parts (Some err) \<Rightarrow> Multipart (RandName env) parts (Some err)
             | PartsDone parts None \<Rightarrow> Multipart (RandName env) parts (closeErr env)))"

text \<open>The effect of processSegment on the connection it is given.\<close>

definition storeRenditions :: "(string \<times> bytes) list \<Rightarrow> OSSession \<Rightarrow> OSSession" where
  "storeRenditions stored sess =
     (case sess of
        MemorySession path dCache \<Rightarrow>
          MemorySession path (\<lambda>k. case map_of stored k of Some d \<Rightarrow> Some d | None \<Rightarrow> dCache k)
      | ExternalSession u path \<Rightarrow> ExternalSession u path)"

definition applyOutcome :: "segmentOutcome \<Rightarrow> rtmpConnection \<Rightarrow> rtmpConnection" where
  "applyOutcome out cxn =
     cxn\<lparr>pl := map_option (\<lambda>pm. pm\<lparr>osSession := storeRenditions (segStored out) (osSession pm)\<rparr>)
                  (pl cxn),
         sourceBytes := sourceBytes cxn + segSourceBytes out,
         transcodedBytes := transcodedBytes cxn + segTranscodedBytes out\<rparr>"

text \<open>HandlePush, the segment record: the sequence number is read from the file name and
  is 0 when that fails; the duration is read from \<open>Content-Duration\<close> in milliseconds and
  is 2000 when that fails (the source then divides it by 1000 in floating point).\<close>

definition pushSegment :: "Request \<Rightarrow> URL \<Rightarrow> string \<Rightarrow> bytes \<Rightarrow> HLSSegment" where
  "pushSegment r url ext body =
     (let fname = path_Base (Path url);
          seq = (case ParseUint (TrimSuffix fname ext) of Inl err \<Rightarrow> 0 | Inr n \<Rightarrow> n);
          duration = (case Atoi (Header r ''Content-Duration'') of Inl err \<Rightarrow> 2000 | Inr d \<Rightarrow> d)
      in \<lparr>Data = body, SegName = fname, SeqNo = seq, DurationMs = duration\<rparr>)"

text \<open>HandlePush, from the call of processSegment to the response. The goroutine that
  refreshes \<open>lastUsed\<close> while processSegment runs works beside the handler; it is
  \<open>kicker\<close> below.\<close>

definition processPush ::
  "env \<Rightarrow> LivepeerServer \<Rightarrow> Request \<Rightarrow> URL \<Rightarrow> string \<Rightarrow> bytes \<Rightarrow> nat \<Rightarrow> ManifestID \<Rightarrow>
     LivepeerServer \<times> Response" where
  "processPush env s r url ext body cxn m =
     (let seg = pushSegment r url ext body;
          seq = SeqNo seg;
          out = processSegment env (cxnHeap s ! cxn) seg;
          s1 = s\<lparr>cxnHeap := (cxnHeap s)[cxn := applyOutcome out (cxnHeap s ! cxn)]\<rparr>
      in case segURLs out of
           Inl err \<Rightarrow>
             (s1, HttpError 500
                (''http push error processing segment url='' @ URL_String env url
                 @ '' manifestID='' @ m @ '' err='' @ Error err))
         | Inr urls \<Rightarrow>
             if ctxDone r then (s1, Silent)
             else if length urls = 0 then (s1, HttpError 503 ''No sessions available'')
             else
               (s1, respondPush env (cxnHeap s1 ! cxn)
                      (readSlice s1 (Profiles (params (cxnHeap s1 ! cxn)))) r seq urls))"

definition HandlePush :: "env \<Rightarrow> LivepeerServer \<Rightarrow> Request \<Rightarrow> LivepeerServer \<times> Response" where
  "HandlePush env s r =
     (if Method r \<noteq> ''POST'' \<and> Method r \<noteq> ''PUT'' then
        (s, HttpError 405
              (''http push request wrong method='' @ Method r @ '' url=''
               @ URL_String env (reqURL r) @ '' host='' @ reqHost r))
      else
        case Body r of
          Inl err \<Rightarrow> (s, HttpError 500 (''Error reading http request body: '' @ Error err))
        | Inr body \<Rightarrow>
            let url = pushURL r;
                ext = path_Ext (Path url);
                format = ProfileExtensionFormat ext
            in if FormatNone = format then
                 (s, HttpError 400 (''ignoring file extension: '' @ ext))
               else
                 let m0 = parseManifestID env (Path url)
                 in if m0 = [] then (s, HttpError 400 (''Bad URL url='' @ URL_String env url))
                    else
                      (case bindConnection env s r url format m0 of
                         (s1, Inl resp) \<Rightarrow> (s1, resp)
                       | (s1, Inr (cxn, m)) \<Rightarrow> processPush env s1 r url ext body cxn m))"

text \<open>Iteration \<open>j\<close> of the loop over the rendition URIs runs to its end: the response
  writer accepts the part and its body and, when the part carries the payload \<open>rdata\<close>,
  the format of profile \<open>j\<close> has an extension.\<close>

definition partWritten :: "env \<Rightarrow> VideoProfile list \<Rightarrow> nat \<Rightarrow> bytes \<Rightarrow> bool" where
  "partWritten env profiles j rdata \<longleftrightarrow>
     createPartErr env j = None \<and> writeErr env j = None \<and>
     (rdata \<noteq> [] \<longrightarrow> \<not> isl (ProfileFormatExtension env (Format (profiles ! j))))"

section \<open>The inactivity watchdog and the end of an RTMP stream\<close>

text \<open>
  One tick of the watchdog that HandlePush starts with \<open>(intmid, extmid)\<close>. When the
  connection is gone \<open>lastUsed\<close> keeps the zero time, which is always older than the
  timeout. The watchdog returns, and leaves \<open>reapers\<close>, on both exits of the loop.
\<close>

definition reaperTick :: "env \<Rightarrow> LivepeerServer \<Rightarrow> ManifestID \<Rightarrow> ManifestID \<Rightarrow> LivepeerServer" where
  "reaperTick env s intmid extmid =
     (let expired =
            (case rtmpConnections s intmid of
               Some cxn \<Rightarrow> timeNow env - lastUsed (cxnHeap s ! cxn) > httpPushTimeout env
             | None \<Rightarrow> True)
      in if internalManifests s extmid = None \<and> intmid \<noteq> extmid then
           s\<lparr>reapers := remove1 (intmid, extmid) (reapers s)\<rparr>
         else if expired then
           (fst (removeRTMPStream s extmid))\<lparr>reapers := remove1 (intmid, extmid) (reapers s)\<rparr>
         else s)"

text \<open>endRTMPStreamHandler, for a stream whose parameters name the identity \<open>m\<close>.\<close>

definition endRTMPStreamHandler :: "LivepeerServer \<Rightarrow> ManifestID \<Rightarrow> LivepeerServer \<times> error option" where
  "endRTMPStreamHandler s m = removeRTMPStream s m"

text \<open>Runs of the server: pushes, watchdog ticks and stream ends, one after the other.\<close>

datatype op =
    Push env Request
  | ReaperTick env ManifestID ManifestID
  | EndStream ManifestID

fun step :: "LivepeerServer \<Rightarrow> op \<Rightarrow> LivepeerServer" where
  "step s (Push env r) = fst (HandlePush env s r)"
| "step s (ReaperTick env intmid extmid) = reaperTick env s intmid extmid"
| "step s (EndStream m) = fst (endRTMPStreamHandler s m)"

definition run :: "op list \<Rightarrow> LivepeerServer \<Rightarrow> LivepeerServer" where
  "run ops s = foldl step s ops"

section \<open>Well-formed registries and guarded runs\<close>




text \<open>The watchdog tick calls removeRTMPStream: it does not return at the warning, and
  \<open>lastUsed\<close> is older than the timeout.\<close>

definition reaperRemoves :: "env \<Rightarrow> LivepeerServer \<Rightarrow> ManifestID \<Rightarrow> ManifestID \<Rightarrow> bool" where
  "reaperRemoves env s intmid extmid \<longleftrightarrow>
     \<not> (internalManifests s extmid = None \<and> intmid \<noteq> extmid)
     \<and> (case rtmpConnections s intmid of
          Some cxn \<Rightarrow> timeNow env - lastUsed (cxnHeap s ! cxn) > httpPushTimeout env
        | None \<Rightarrow> True)"



section \<open>The connections that a push finds\<close>

text \<open>From \<open>s\<close> to \<open>s'\<close> no record of a connection and no array of profiles is lost, the
  records of \<open>s\<close> keep their source profile and their parameters, and the arrays of \<open>s\<close>
  keep their contents.\<close>

definition keepsFormats :: "LivepeerServer \<Rightarrow> LivepeerServer \<Rightarrow> bool" where
  "keepsFormats s s' \<longleftrightarrow>
     length (cxnHeap s) \<le> length (cxnHeap s')
     \<and> length (profHeap s) \<le> length (profHeap s')
     \<and> (\<forall>q < length (cxnHeap s).
           profile (cxnHeap s' ! q) = profile (cxnHeap s ! q)
           \<and> params (cxnHeap s' ! q) = params (cxnHeap s ! q))
     \<and> (\<forall>a < length (profHeap s). profHeap s' ! a = profHeap s ! a)"

section \<open>The liveness kicker\<close>

text \<open>
  httpPushResetTimer computes \<open>int64(float64(httpPushTimeout) * 0.9)\<close> in float64
  arithmetic: a float64 has a significand of 53 bits, and the conversion of an integer and
  the product round to the nearest float64, ties to the even significand. \<open>bitLength n\<close>
  is the number of binary digits of \<open>n\<close>, \<open>roundShift n k\<close> the multiple of \<open>2 ^ k\<close>
  nearest to \<open>n\<close>, and \<open>round53 n\<close> the nearest number with at most 53 significant bits.
\<close>

fun bitLength :: "nat \<Rightarrow> nat" where
  "bitLength n = (if n = 0 then 0 else Suc (bitLength (n div 2)))"

declare bitLength.simps [simp del]

definition roundShift :: "nat \<Rightarrow> nat \<Rightarrow> nat" where
  "roundShift n k =
     (let q = n div 2 ^ k; r = n mod 2 ^ k
      in if 2 * r > 2 ^ k \<or> (2 * r = 2 ^ k \<and> odd q) then (q + 1) * 2 ^ k else q * 2 ^ k)"

definition round53 :: "nat \<Rightarrow> nat" where
  "round53 n = roundShift n (bitLength n - 53)"

text \<open>
  \<open>float64_of_int64 x\<close> is the value of \<open>float64(x)\<close> for an int64 \<open>x\<close>, an integer. The
  constant \<open>0.9\<close> is the float64 \<open>8106479329266893 / 2 ^ 53\<close>, and \<open>float64_mul09 x\<close> is
  the product of the float64 of integral value \<open>x\<close> with it, as a numerator over
  \<open>2 ^ 53\<close>. \<open>int64_of_float53 y\<close> is \<open>int64\<close> of the float64 \<open>y / 2 ^ 53\<close>, which
  truncates toward zero. With 64-bit arguments nothing overflows or underflows.
\<close>

definition float64_of_int64 :: "int \<Rightarrow> int" where
  "float64_of_int64 x = sgn x * int (round53 (nat \<bar>x\<bar>))"

definition float64_mul09 :: "int \<Rightarrow> int" where
  "float64_mul09 x = sgn x * int (round53 (nat \<bar>x\<bar> * 8106479329266893))"

definition int64_of_float53 :: "int \<Rightarrow> int" where
  "int64_of_float53 y = sgn y * (\<bar>y\<bar> div 2 ^ 53)"

text \<open>httpPushResetTimer: \<open>sleepDur\<close>, the time after which the context that it returns
  is done.\<close>

definition sleepDur :: "Time \<Rightarrow> Time" where
  "sleepDur timeout = int64_of_float53 (float64_mul09 (float64_of_int64 timeout))"

definition httpPushResetTimer :: "env \<Rightarrow> Time" where
  "httpPushResetTimer env = sleepDur (httpPushTimeout env)"

text \<open>
  The goroutine that HandlePush starts before it calls processSegment, for the identity
  \<open>m\<close> that the handler goes by. \<open>kickerTick\<close> is the branch \<open>case <-tick.Done()\<close> of its
  \<open>select\<close>: the lookup of \<open>s.rtmpConnections[mid]\<close> and the write of \<open>time.Now()\<close> to
  \<open>lastUsed\<close>, between \<open>RLock\<close> and \<open>RUnlock\<close>.
\<close>

definition kickerTick :: "env \<Rightarrow> LivepeerServer \<Rightarrow> ManifestID \<Rightarrow> LivepeerServer" where
  "kickerTick env s m =
     (case rtmpConnections s m of
        Some cxn \<Rightarrow>
          s\<lparr>cxnHeap := (cxnHeap s)[cxn := (cxnHeap s ! cxn)\<lparr>lastUsed := timeNow env\<rparr>]\<rparr>
      | None \<Rightarrow> s)"



section \<open>Fixtures\<close>

text \<open>
  A server and an environment in the manner of the repository's tests: no connection yet,
  the two default profiles of mediaserver.go (of which only the names and the formats
  matter here), memory storage, no webhook, a response writer that never fails. The stub
  of the JSON decoder reads the whole body as the manifestID; the stub of parseStreamID
  handles paths of the form \<open>/live/<manifestID>/<seqNo>.<ext>\<close>.
\<close>

definition P240p30fps4x3 :: VideoProfile where
  "P240p30fps4x3 =
     \<lparr>Name = ''P240p30fps4x3'', Bitrate = ''600k'', Framerate = 30, FramerateDen = 0,
      Resolution = ''320x240'', Profile = 0, GOP = 0, Format = FormatNone\<rparr>"

definition P360p30fps16x9 :: VideoProfile where
  "P360p30fps16x9 =
     \<lparr>Name = ''P360p30fps16x9'', Bitrate = ''1200k'', Framerate = 30, FramerateDen = 0,
      Resolution = ''640x360'', Profile = 0, GOP = 0, Format = FormatNone\<rparr>"

definition server0 :: LivepeerServer where
  "server0 =
     \<lparr>rtmpConnections = Map.empty, internalManifests = Map.empty, lastManifestID = [],
      cxnHeap = [], profHeap = [],
      BroadcastJobVideoProfiles = [P240p30fps4x3, P360p30fps16x9],
      reapers = []\<rparr>"

definition stubParseStreamID :: "string \<Rightarrow> StreamID" where
  "stubParseStreamID reqPath =
     (let p = TrimSuffix reqPath (path_Ext reqPath);
          p1 = dropWhile (\<lambda>c. c = CHR ''/'') p;
          p2 = (if take 5 p1 = ''live/'' then drop 5 p1 else p1)
      in \<lparr>sidManifestID = takeWhile (\<lambda>c. c \<noteq> CHR ''/'') p2,
          sidRendition = drop 1 (dropWhile (\<lambda>c. c \<noteq> CHR ''/'') p2)\<rparr>)"

definition stubUnmarshal :: "bytes \<Rightarrow> error + authWebhookResponse" where
  "stubUnmarshal rbody =
     Inr \<lparr>aManifestID = rbody, aStreamKey = [], aPresets = [], aObjectStore = [],
          aRecordObjectStore = [], aRecordObjectStoreURL = [], aProfiles = [],
          aPreviousSessions = []\<rparr>"

definition stubFormatExtension :: "Format \<Rightarrow> error + string" where
  "stubFormatExtension f =
     (case f of
        FormatMPEGTS \<Rightarrow> Inr ''.ts''
      | FormatMP4 \<Rightarrow> Inr ''.mp4''
      | FormatNone \<Rightarrow> Inl (errOther ''unknown VideoProfile format for extension''))"

definition stubFormatMimeType :: "Format \<Rightarrow> error + string" where
  "stubFormatMimeType f =
     (case f of
        FormatMPEGTS \<Rightarrow> Inr ''video/mp2t''
      | FormatMP4 \<Rightarrow> Inr ''video/mp4''
      | FormatNone \<Rightarrow> Inl (errOther ''unknown VideoProfile format for mime type''))"

definition noSessions :: segmentOutcome where
  "noSessions = \<lparr>segURLs = Inr [], segStored = [], segSourceBytes = 0, segTranscodedBytes = 0\<rparr>"

definition testEnv :: env where
  "testEnv =
     \<lparr>AuthWebhookURL = [],
      httpPost = (\<lambda>u b. Inl (errOther ''connection refused'')),
      jsonMarshal = (\<lambda>kvs. concat (map (\<lambda>kv. fst kv @ ''='' @ snd kv) kvs)),
      jsonUnmarshal = stubUnmarshal,
      escapeHost = (\<lambda>h. h),
      escapePath = (\<lambda>p. p),
      escapeFragment = (\<lambda>f. f),
      parseStreamID = stubParseStreamID,
      lookupPreset = (\<lambda>v. None),
      DefaultProfileName = (\<lambda>w h b. []),
      EncoderProfileNameToValue = (\<lambda>n. Inr 0),
      gopDuration = (\<lambda>g. Inl (errOther ''invalid gop value'')),
      GOPIntraOnly = - 1,
      ParseOSURL = (\<lambda>u r. Inl (errOther ''bad url'')),
      JobCapabilities = (\<lambda>p. Inr []),
      NodeStorage = Some MemoryDriver,
      RecordStorage = None,
      NodeID = [],
      MaxSessions = 10,
      httpPushTimeout = 60000000000,
      RandomManifestID = ''random'',
      RandomIDGenerator = ''key'',
      randUint64 = 7,
      RandName = ''boundary'',
      timeNow = 0,
      timeNowRegister = 0,
      rangeOrder = [],
      processSegment = (\<lambda>cxn seg. noSessions),
      ProfileFormatExtension = stubFormatExtension,
      ProfileFormatMimeType = stubFormatMimeType,
      createPartErr = (\<lambda>i. None),
      writeErr = (\<lambda>i. None),
      closeErr = None\<rparr>"

text \<open>The environment of a request whose webhook answers with the manifestID \<open>m\<close>, and
  that sees the keys \<open>ks\<close> when it ranges over \<open>internalManifests\<close>.\<close>

definition hookEnv :: "string \<Rightarrow> ManifestID list \<Rightarrow> env" where
  "hookEnv m ks =
     testEnv\<lparr>AuthWebhookURL := ''http://hook'', httpPost := (\<lambda>u b. Inr (200, m)),
             rangeOrder := ks\<rparr>"

definition pushRequest :: "string \<Rightarrow> Request" where
  "pushRequest p =
     \<lparr>Method = ''POST'',
      reqURL = \<lparr>Scheme = [], Opaque = [], User = None, Host = [], Path = p, RawPath = [],
                ForceQuery = False, RawQuery = [], Fragment = []\<rparr>,
      reqHost = ''example.com'',
      Header = (\<lambda>k. []),
      Body = Inr [],
      ctxDone = False\<rparr>"

text \<open>
  A request for \<open>/live/mani/17.ts\<close> that accepts a multipart response, and an environment
  in which processSegment returns two rendition URIs, the payload of the second of which
  it has stored; \<open>longEnv\<close> returns three URIs.
\<close>

definition multipartRequest :: Request where
  "multipartRequest =
     (pushRequest ''/live/mani/17.ts'')
       \<lparr>Header := (\<lambda>k. if k = ''Accept'' then ''multipart/mixed'' else []),
        Body := Inr ''InsteadOf.TS''\<rparr>"

definition twoRenditions :: segmentOutcome where
  "twoRenditions =
     \<lparr>segURLs = Inr [''https://stub/transcoded/a.ts'', ''https://stub/transcoded/b.ts''],
      segStored = [(''https://stub/transcoded/b.ts'', ''transcoded binary data'')],
      segSourceBytes = 12, segTranscodedBytes = 22\<rparr>"

definition segEnv :: env where
  "segEnv = testEnv\<lparr>processSegment := (\<lambda>cxn seg. twoRenditions)\<rparr>"

definition longEnv :: env where
  "longEnv =
     testEnv\<lparr>processSegment := (\<lambda>cxn seg.
       twoRenditions\<lparr>segURLs := Inr [''https://stub/transcoded/a.ts'',
                                      ''https://stub/transcoded/b.ts'',
                                      ''https://stub/transcoded/c.ts'']\<rparr>)\<rparr>"

text \<open>A connection in the manner of the test of the multipart response: its memory
  session holds the payload of the second rendition.\<close>

definition maniCxn :: rtmpConnection where
  "maniCxn =
     \<lparr>mid = ''mani'', nonce = 7,
      stream = \<lparr>AppData = None, Width = 0, Height = 0, closed = False\<rparr>,
      pl = Some \<lparr>plManifestID = ''xx'',
                 osSession = MemorySession ''testPath''
                   (\<lambda>k. if k = ''https://stub/transcoded/b.ts''
                        then Some ''transcoded binary data'' else None),
                 recordSession = None, plCleaned = False\<rparr>,
      profile = P240p30fps4x3,
      params = \<lparr>ManifestID = ''mani'', RtmpKey = [], Profiles = Array 0, pResolution = [],
                pFormat = FormatMPEGTS, OS = None, RecordOS = None, Capabilities = []\<rparr>,
      sessManager = \<lparr>smCleaned = False\<rparr>,
      lastUsed = 0, sourceBytes = 0, transcodedBytes = 0\<rparr>"

definition maniProfiles :: "VideoProfile list" where
  "maniProfiles =
     [P240p30fps4x3\<lparr>Format := FormatMPEGTS\<rparr>, P360p30fps16x9\<lparr>Format := FormatMPEGTS\<rparr>]"


text \<open>The server after the push of \<open>/live/extmid1/0.ts\<close>, which the webhook assigns to
  the manifest \<open>intmid\<close>; and the server after the push of \<open>/live/extmid2/0.ts\<close> that
  follows, which the webhook assigns to \<open>intmid\<close> as well.\<close>

definition rebound1 :: LivepeerServer where
  "rebound1 = run [Push (hookEnv ''intmid'' []) (pushRequest ''/live/extmid1/0.ts'')] server0"

definition rebound2 :: LivepeerServer where
  "rebound2 =
     run [Push (hookEnv ''intmid'' [''extmid1'']) (pushRequest ''/live/extmid2/0.ts'')] rebound1"

text \<open>
  A run in which an external binding outlives its connection: the push of
  \<open>/live/a/0.ts\<close> creates the connection \<open>a\<close> and starts its watchdog; the push of
  \<open>/live/b/0.ts\<close>, which the webhook assigns to the manifest \<open>a\<close>, binds \<open>b\<close> to the
  connection that exists; 61 seconds later the watchdog of \<open>a\<close> ticks.
\<close>

definition danglingRun :: "op list" where
  "danglingRun =
     [Push testEnv (pushRequest ''/live/a/0.ts''),
      Push (hookEnv ''a'' []) (pushRequest ''/live/b/0.ts''),
      ReaperTick (testEnv\<lparr>timeNow := 61000000000\<rparr>) ''a'' ''a'']"

text \<open>
  A run in which the watchdog of \<open>a\<close> ticks while \<open>b\<close> is bound to \<open>a\<close>, and calls no
  removal: the first two pushes of \<open>danglingRun\<close>; a tick of the watchdog of \<open>a\<close> before
  the timeout; the push of \<open>/live/x/0.ts\<close>, which the webhook assigns to the manifest
  \<open>y\<close>; and 61 seconds later a tick of the watchdog of \<open>y\<close>, which ends that stream.
\<close>

definition quietRun :: "op list" where
  "quietRun =
     [Push testEnv (pushRequest ''/live/a/0.ts''),
      Push (hookEnv ''a'' []) (pushRequest ''/live/b/0.ts''),
      ReaperTick testEnv ''a'' ''a'',
      Push (hookEnv ''y'' [''b'']) (pushRequest ''/live/x/0.ts''),
      ReaperTick (testEnv\<lparr>timeNow := 61000000000\<rparr>) ''y'' ''x'']"

text \<open>
  An MP4 push for a new identity whose manifest has a connection: \<open>tsServer\<close> is the
  server after the push of \<open>/live/a/0.ts\<close>, which creates the connection \<open>a\<close>, and
  \<open>mp4OnTs\<close> the server after the push of \<open>/live/b/0.mp4\<close> that follows, which the
  webhook assigns to the manifest \<open>a\<close>. In both, processSegment returns two rendition
  URIs.
\<close>

definition hookSegEnv :: "string \<Rightarrow> env" where
  "hookSegEnv m = segEnv\<lparr>AuthWebhookURL := ''http://hook'', httpPost := (\<lambda>u b. Inr (200, m))\<rparr>"

definition tsServer :: LivepeerServer where
  "tsServer = run [Push segEnv (pushRequest ''/live/a/0.ts'')] server0"

definition mp4OnTs :: LivepeerServer where
  "mp4OnTs = run [Push (hookSegEnv ''a'') (pushRequest ''/live/b/0.mp4'')] tsServer"

text \<open>
  A request for \<open>/live/we b/0.mp4\<close> that came with the scheme \<open>https\<close>, a query and a
  fragment; an environment that percent-encodes the space of a path; and a network that
  refuses the request to the webhook that carries the payload \<open>payload\<close>, and answers
  every other request with the manifest \<open>intweb\<close>.
\<close>

definition webRequest :: Request where
  "webRequest =
     (pushRequest ''/live/we b/0.mp4'')
       \<lparr>reqURL := (reqURL (pushRequest ''/live/we b/0.mp4''))
          \<lparr>Scheme := ''https'', RawQuery := ''token=x'', Fragment := ''frag''\<rparr>\<rparr>"

definition webEnv :: env where
  "webEnv =
     (hookEnv ''intweb'' [])
       \<lparr>escapePath := (\<lambda>p. concat (map (\<lambda>c. if c = CHR '' '' then ''%20'' else [c]) p))\<rparr>"

definition refusing :: "string \<Rightarrow> string \<Rightarrow> string \<Rightarrow> error + (int \<times> bytes)" where
  "refusing payload u b =
     (if u = ''http://hook'' \<and> b = payload then Inl (errOther ''connection refused'')
      else Inr (200, ''intweb''))"

section \<open>Unfolding the model on concrete inputs\<close>

lemmas model_defs =
  HandlePush_def bindConnection_def registerPush_def pushParams_def prepareStream_def
  registerStream_def createRTMPStreamIDHandler_def
  authenticateStream_def webhookParams_def registerConnection_def endOldStream_def
  removeRTMPStream_def bindInternalManifest_def processPush_def pushSegment_def respondPush_def
  resolveManifest_def pushURL_def URL_String_def parseManifestID_def readSlice_def
  storeFormat_def path_Ext_def path_Base_def TrimSuffix_def ParseUint_def Atoi_def
  isDigit_def digitsVal_def ProfileExtensionFormat_def applyOutcome_def storeRenditions_def
  jsonProfileToVideoProfile_def endConnection_def reaperTick_def endRTMPStreamHandler_def
  run_def renditionData_def partFor_def mkPart_def digit_def showNat.simps storedPayload_def
  setOutputFormats.simps findOldStreamID.simps
  partWritten_def reaperRemoves_def kickerTick_def httpPushResetTimer_def


lemmas fixture_defs =
  testEnv_def hookEnv_def pushRequest_def server0_def stubParseStreamID_def stubUnmarshal_def
  stubFormatExtension_def stubFormatMimeType_def noSessions_def P240p30fps4x3_def
  P360p30fps16x9_def multipartRequest_def twoRenditions_def segEnv_def longEnv_def
  maniCxn_def maniProfiles_def rebound1_def rebound2_def danglingRun_def
  quietRun_def hookSegEnv_def tsServer_def mp4OnTs_def webRequest_def webEnv_def refusing_def

section \<open>authenticateStream\<close>

text \<open>
  C5. authenticateStream returns an error exactly when a webhook is configured and the
  POST fails, or answers with a status other than 200, or answers 200 with a body that is
  not empty and that either does not parse or names an empty manifestID. A 200 answer
  with an empty body gives what an unset webhook URL gives: no response and no error.
\<close>

theorem authenticateStream_fails_iff:
  "(isl (authenticateStream env url) \<longleftrightarrow>
      AuthWebhookURL env \<noteq> [] \<and>
      (case httpPost env (AuthWebhookURL env) (jsonMarshal env [(''url'', url)]) of
         Inl err \<Rightarrow> True
       | Inr (StatusCode, rbody) \<Rightarrow>
           StatusCode \<noteq> 200 \<or>
           (rbody \<noteq> [] \<and>
            (case jsonUnmarshal env rbody of
               Inl err \<Rightarrow> True
             | Inr authResp \<Rightarrow> aManifestID authResp = []))))
   \<and> (AuthWebhookURL env \<noteq> [] \<longrightarrow>
        httpPost env (AuthWebhookURL env) (jsonMarshal env [(''url'', url)]) = Inr (200, []) \<longrightarrow>
        authenticateStream env url = Inr None \<and>
        authenticateStream env url = authenticateStream (env\<lparr>AuthWebhookURL := []\<rparr>) url)"
  by (auto simp: authenticateStream_def split: sum.splits prod.splits)

text \<open>The theorem at a webhook that answers 200 with an empty body.\<close>

theorem authenticateStream_fails_iff_witness:
  "AuthWebhookURL (hookEnv [] []) \<noteq> []
   \<and> httpPost (hookEnv [] []) (AuthWebhookURL (hookEnv [] []))
        (jsonMarshal (hookEnv [] []) [(''url'', ''http://example.com/live/a/0.ts'')]) = Inr (200, [])
   \<and> authenticateStream (hookEnv [] []) ''http://example.com/live/a/0.ts'' = Inr None
   \<and> \<not> isl (authenticateStream (hookEnv [] []) ''http://example.com/live/a/0.ts'')"
  using authenticateStream_fails_iff [of "hookEnv [] []" "''http://example.com/live/a/0.ts''"]
  by (simp add: fixture_defs)

section \<open>removeRTMPStream\<close>







section \<open>The multipart response\<close>

lemma renditionData_storedPayload: "renditionData pm urls = map (storedPayload pm) urls"
  by (auto simp: renditionData_def storedPayload_def split: OSSession.splits)



lemma partFor_panic_iff:
  "partFor env profiles seq i url rdata = StepPanic \<longleftrightarrow> length profiles \<le> i"
  by (cases "ProfileFormatExtension env (Format (profiles ! i))")
     (simp_all add: partFor_def Let_def)

lemma partFor_part:
  "i < length profiles \<Longrightarrow> partWritten env profiles i rdata \<Longrightarrow>
   \<exists>p. partFor env profiles seq i url rdata = StepPart p"
  by (auto simp: partFor_def partWritten_def Let_def split: sum.splits)


lemma writeParts_no_panic:
  "i + length uds \<le> length profiles \<Longrightarrow> writeParts env profiles seq i uds acc \<noteq> PartsPanic"
proof (induction uds arbitrary: i acc)
  case Nil
  then show ?case by simp
next
  case (Cons ud uds)
  have "partFor env profiles seq i (fst ud) (snd ud) \<noteq> StepPanic"
    using Cons.prems by (simp add: partFor_panic_iff)
  moreover have "writeParts env profiles seq (Suc i) uds (acc @ [p]) \<noteq> PartsPanic" for p
    using Cons.prems by (intro Cons.IH) simp
  ultimately show ?case
    by (simp split: partStep.splits option.splits)
qed

lemma writeParts_panic:
  "i \<le> length profiles \<Longrightarrow> length profiles < i + length uds \<Longrightarrow>
   (\<forall>k. i + k < length profiles \<longrightarrow> partWritten env profiles (i + k) (snd (uds ! k))) \<Longrightarrow>
   writeParts env profiles seq i uds acc = PartsPanic"
proof (induction uds arbitrary: i acc)
  case Nil
  then show ?case by simp
next
  case (Cons ud uds)
  show ?case
  proof (cases "i < length profiles")
    case False
    then have "partFor env profiles seq i (fst ud) (snd ud) = StepPanic"
      by (simp add: partFor_panic_iff)
    then show ?thesis by simp
  next
    case True
    from Cons.prems(3)[rule_format, of 0] True
    have ok: "partWritten env profiles i (snd ud)" by simp
    then obtain p where p: "partFor env profiles seq i (fst ud) (snd ud) = StepPart p"
      using partFor_part[OF True] by blast
    have "writeParts env profiles seq (Suc i) uds (acc @ [p]) = PartsPanic"
    proof (rule Cons.IH)
      show "Suc i \<le> length profiles" using True by simp
      show "length profiles < Suc i + length uds" using Cons.prems(2) by simp
      show "\<forall>k. Suc i + k < length profiles
                \<longrightarrow> partWritten env profiles (Suc i + k) (snd (uds ! k))"
        using Cons.prems(3)[rule_format, of "Suc k" for k] by simp
    qed
    with p ok show ?thesis by (simp add: partWritten_def)
  qed
qed









text \<open>
  C9. In the loop of the multipart response, iteration \<open>i\<close> panics exactly when \<open>i\<close> is
  not an index of the connection's profile list, whether the part is a URI reference or
  a payload. So the response does not panic when the list of rendition URIs is no longer
  than the profile list, and it panics when the list is longer, unless the loop has
  stopped on an error before it reaches the first index out of range.
\<close>

theorem respondPush_profile_index:
  "(partFor env profiles seq i url rdata = StepPanic \<longleftrightarrow> length profiles \<le> i)
   \<and> (length urls \<le> length profiles \<longrightarrow> pl cxn = Some pm \<longrightarrow>
        respondPush env cxn profiles r seq urls \<noteq> Panic)
   \<and> (length profiles < length urlsL \<longrightarrow> pl cxn = Some pm \<longrightarrow>
        Header r ''Accept'' = ''multipart/mixed'' \<longrightarrow>
        (\<forall>k<length profiles. partWritten env profiles k (storedPayload pm (urlsL ! k))) \<longrightarrow>
        respondPush env cxn profiles r seq urlsL = Panic)"
proof (intro conjI impI)
  show "partFor env profiles seq i url rdata = StepPanic \<longleftrightarrow> length profiles \<le> i"
    by (rule partFor_panic_iff)
next
  assume len: "length urls \<le> length profiles" and pm: "pl cxn = Some pm"
  have "writeParts env profiles seq 0 (zip urls (renditionData pm urls)) [] \<noteq> PartsPanic"
    by (rule writeParts_no_panic) (simp add: renditionData_storedPayload len)
  with pm show "respondPush env cxn profiles r seq urls \<noteq> Panic"
    by (simp add: respondPush_def split: partsResult.splits option.splits)
next
  assume len: "length profiles < length urlsL" and pm: "pl cxn = Some pm"
    and accept: "Header r ''Accept'' = ''multipart/mixed''"
    and ok: "\<forall>k<length profiles. partWritten env profiles k (storedPayload pm (urlsL ! k))"
  have "writeParts env profiles seq 0 (zip urlsL (renditionData pm urlsL)) [] = PartsPanic"
  proof (rule writeParts_panic)
    show "0 \<le> length profiles" by simp
    show "length profiles < 0 + length (zip urlsL (renditionData pm urlsL))"
      using len by (simp add: renditionData_storedPayload)
    show "\<forall>k. 0 + k < length profiles \<longrightarrow>
            partWritten env profiles (0 + k) (snd (zip urlsL (renditionData pm urlsL) ! k))"
      using ok len by (simp add: renditionData_storedPayload)
  qed
  with pm accept show "respondPush env cxn profiles r seq urlsL = Panic"
    by (simp add: respondPush_def)
qed

text \<open>The theorem on a connection with two profiles: two URIs are answered, three make
  the handler panic.\<close>

theorem respondPush_profile_index_witness:
  "length [''https://stub/transcoded/a.ts'', ''https://stub/transcoded/b.ts'']
     \<le> length maniProfiles
   \<and> pl maniCxn \<noteq> None
   \<and> respondPush testEnv maniCxn maniProfiles multipartRequest 17
        [''https://stub/transcoded/a.ts'', ''https://stub/transcoded/b.ts''] \<noteq> Panic
   \<and> length maniProfiles
       < length [''https://stub/transcoded/a.ts'', ''https://stub/transcoded/b.ts'',
                 ''https://stub/transcoded/c.ts'']
   \<and> Header multipartRequest ''Accept'' = ''multipart/mixed''
   \<and> respondPush testEnv maniCxn maniProfiles multipartRequest 17
        [''https://stub/transcoded/a.ts'', ''https://stub/transcoded/b.ts'',
         ''https://stub/transcoded/c.ts''] = Panic"
proof -
  obtain pm where pm: "pl maniCxn = Some pm"
    by (simp add: maniCxn_def)
  have stored: "storedPayload pm u
                  = (if u = ''https://stub/transcoded/b.ts'' then ''transcoded binary data''
                     else [])" for u
    using pm by (auto simp: maniCxn_def storedPayload_def)
  have len: "length maniProfiles = 2"
    by (simp add: maniProfiles_def)
  have accept: "Header multipartRequest ''Accept'' = ''multipart/mixed''"
    by (simp add: multipartRequest_def)
  have ok: "\<forall>k<length maniProfiles. partWritten testEnv maniProfiles k
              (storedPayload pm ([''https://stub/transcoded/a.ts'',
                 ''https://stub/transcoded/b.ts'', ''https://stub/transcoded/c.ts''] ! k))"
    by (simp add: len stored less_Suc_eq numeral_2_eq_2 partWritten_def maniProfiles_def
          fixture_defs)
  from respondPush_profile_index
         [of testEnv maniProfiles 17 0 "[]" "[]"
             "[''https://stub/transcoded/a.ts'', ''https://stub/transcoded/b.ts'']"
             maniCxn pm multipartRequest
             "[''https://stub/transcoded/a.ts'', ''https://stub/transcoded/b.ts'',
               ''https://stub/transcoded/c.ts'']"]
       pm len accept ok
  show ?thesis by simp
qed

section \<open>The URL sent to the webhook\<close>

text \<open>None of the functions below posts anything itself: replacing \<open>httpPost\<close> leaves them
  as they are.\<close>

lemma URL_String_post: "URL_String (env\<lparr>httpPost := f\<rparr>) u = URL_String env u"
  by (simp add: URL_String_def cong: if_cong option.case_cong)

lemma parseManifestID_post: "parseManifestID (env\<lparr>httpPost := f\<rparr>) p = parseManifestID env p"
  by (simp add: parseManifestID_def)

lemma parsePresets_post: "parsePresets (env\<lparr>httpPost := f\<rparr>) vs = parsePresets env vs"
  by (induction vs) (simp_all split: option.splits)

lemma jsonProfile1_post: "jsonProfile1 (env\<lparr>httpPost := f\<rparr>) jp = jsonProfile1 env jp"
  by (simp add: jsonProfile1_def cong: if_cong sum.case_cong)

lemma jsonProfiles_post: "jsonProfiles (env\<lparr>httpPost := f\<rparr>) jps = jsonProfiles env jps"
  by (induction jps) (simp_all add: jsonProfile1_post cong: if_cong sum.case_cong)

lemma webhookParams_post: "webhookParams (env\<lparr>httpPost := f\<rparr>) s resp = webhookParams env s resp"
  by (simp add: webhookParams_def jsonProfileToVideoProfile_def jsonProfiles_post
        parsePresets_post parseManifestID_post
        cong: if_cong sum.case_cong option.case_cong)

lemma authenticateStream_post:
  "f (AuthWebhookURL env) (jsonMarshal env [(''url'', u)])
     = httpPost env (AuthWebhookURL env) (jsonMarshal env [(''url'', u)]) \<Longrightarrow>
   authenticateStream (env\<lparr>httpPost := f\<rparr>) u = authenticateStream env u"
  by (simp add: authenticateStream_def cong: if_cong sum.case_cong prod.case_cong)

lemma createRTMPStreamIDHandler_post:
  "f (AuthWebhookURL env) (jsonMarshal env [(''url'', URL_String env url)])
     = httpPost env (AuthWebhookURL env) (jsonMarshal env [(''url'', URL_String env url)]) \<Longrightarrow>
   createRTMPStreamIDHandler (env\<lparr>httpPost := f\<rparr>) s url = createRTMPStreamIDHandler env s url"
  by (simp add: createRTMPStreamIDHandler_def authenticateStream_post URL_String_post
        webhookParams_post
        cong: if_cong sum.case_cong option.case_cong prod.case_cong)

lemma registerConnection_post:
  "registerConnection (env\<lparr>httpPost := f\<rparr>) s st = registerConnection env s st"
  by (simp add: registerConnection_def cong: sum.case_cong option.case_cong)

lemma endOldStream_post: "endOldStream (env\<lparr>httpPost := f\<rparr>) s m prms = endOldStream env s m prms"
  by (simp add: endOldStream_def)

lemma prepareStream_post:
  "prepareStream (env\<lparr>httpPost := f\<rparr>) s m format prms = prepareStream env s m format prms"
  by (simp add: prepareStream_def endOldStream_post)

lemma registerStream_post:
  "registerStream (env\<lparr>httpPost := f\<rparr>) s url m prms = registerStream env s url m prms"
  by (simp add: registerStream_def registerConnection_post URL_String_post
        cong: if_cong option.case_cong prod.case_cong)

lemma registerPush_post:
  "f (AuthWebhookURL env) (jsonMarshal env [(''url'', URL_String env url)])
     = httpPost env (AuthWebhookURL env) (jsonMarshal env [(''url'', URL_String env url)]) \<Longrightarrow>
   registerPush (env\<lparr>httpPost := f\<rparr>) s r url format m = registerPush env s r url format m"
  by (simp add: registerPush_def createRTMPStreamIDHandler_post prepareStream_post
        registerStream_post URL_String_post
        cong: if_cong option.case_cong prod.case_cong)

lemma bindConnection_post:
  "f (AuthWebhookURL env) (jsonMarshal env [(''url'', URL_String env url)])
     = httpPost env (AuthWebhookURL env) (jsonMarshal env [(''url'', URL_String env url)]) \<Longrightarrow>
   bindConnection (env\<lparr>httpPost := f\<rparr>) s r url format m = bindConnection env s r url format m"
  by (simp add: bindConnection_def registerPush_post cong: if_cong option.case_cong)

lemma partFor_post:
  "partFor (env\<lparr>httpPost := f\<rparr>) profiles seq i url rdata = partFor env profiles seq i url rdata"
  by (simp add: partFor_def cong: if_cong sum.case_cong)

lemma writeParts_post:
  "writeParts (env\<lparr>httpPost := f\<rparr>) profiles seq i uds acc = writeParts env profiles seq i uds acc"
  by (induction uds arbitrary: i acc)
     (simp_all add: partFor_post cong: if_cong partStep.case_cong option.case_cong)

lemma respondPush_post:
  "respondPush (env\<lparr>httpPost := f\<rparr>) cxn profiles r seq urls = respondPush env cxn profiles r seq urls"
  by (simp add: respondPush_def writeParts_post
        cong: if_cong option.case_cong partsResult.case_cong)

lemma processPush_post:
  "processPush (env\<lparr>httpPost := f\<rparr>) s r url ext body cxn m = processPush env s r url ext body cxn m"
  by (simp add: processPush_def respondPush_post URL_String_post
        cong: if_cong sum.case_cong)

lemma HandlePush_post:
  "f (AuthWebhookURL env) (jsonMarshal env [(''url'', URL_String env (pushURL r))])
     = httpPost env (AuthWebhookURL env) (jsonMarshal env [(''url'', URL_String env (pushURL r))]) \<Longrightarrow>
   HandlePush (env\<lparr>httpPost := f\<rparr>) s r = HandlePush env s r"
  by (simp add: HandlePush_def bindConnection_post processPush_post URL_String_post
        parseManifestID_post
        cong: if_cong sum.case_cong prod.case_cong)

lemma pushURL_String:
  "URL_String env (pushURL r)
     = ''http:''
       @ (if reqHost r \<noteq> [] \<or> Path (reqURL r) \<noteq> [] then ''//'' else [])
       @ (if reqHost r \<noteq> [] then escapeHost env (reqHost r) else [])
       @ (if escapePath env (Path (reqURL r)) \<noteq> []
             \<and> hd (escapePath env (Path (reqURL r))) \<noteq> CHR ''/'' \<and> reqHost r \<noteq> []
          then ''/'' else [])
       @ escapePath env (Path (reqURL r))"
  by (simp add: URL_String_def pushURL_def Let_def)

lemma HandlePush_refused:
  assumes "Method r = ''POST'' \<or> Method r = ''PUT''" and "Body r = Inr body"
      and "ProfileExtensionFormat (path_Ext (Path (reqURL r))) \<noteq> FormatNone"
      and "parseManifestID env (Path (reqURL r)) \<noteq> []"
      and "rtmpConnections s (resolveManifest s (parseManifestID env (Path (reqURL r)))) = None"
      and "AuthWebhookURL env \<noteq> []"
      and "httpPost env (AuthWebhookURL env)
             (jsonMarshal env [(''url'', URL_String env (pushURL r))]) = Inl err"
  shows "HandlePush env s r
           = (s, HttpError 500 (''Could not create stream ID: url='' @ URL_String env (pushURL r)))"
proof -
  have path: "Path (pushURL r) = Path (reqURL r)" by (simp add: pushURL_def)
  have auth: "authenticateStream env (URL_String env (pushURL r)) = Inl err"
    using assms(6,7) by (simp add: authenticateStream_def)
  then have create: "createRTMPStreamIDHandler env s (pushURL r) = (s, None)"
    by (simp add: createRTMPStreamIDHandler_def)
  have "registerPush env s r (pushURL r) f m
          = (s, Inl (HttpError 500
                (''Could not create stream ID: url='' @ URL_String env (pushURL r))))" for f m
    by (simp add: registerPush_def create)
  with assms(5) have "bindConnection env s r (pushURL r) f (parseManifestID env (Path (reqURL r)))
          = (s, Inl (HttpError 500
                (''Could not create stream ID: url='' @ URL_String env (pushURL r))))" for f
    by (simp add: bindConnection_def Let_def)
  with assms(1,2,3,4) show ?thesis
    by (auto simp: HandlePush_def Let_def path)
qed

text \<open>
  C10. HandlePush replaces the URL of the request by one that has the scheme \<open>http\<close>, the
  host of the request and the path of the request, and nothing else: the scheme, the query
  and the fragment that the request came with play no part. The text of that URL, which
  is what the webhook is sent under the key \<open>url\<close>, is \<open>http://<host><path>\<close> with the
  host and the path percent-encoded by \<open>url.String\<close> (which puts a slash between them when
  the path does not start with one). It is the only payload that HandlePush posts:
  whatever the network would answer to other requests, the handler does the same. And it
  does post it: when the request is a well-formed push for an identity without a
  connection, a webhook is configured and the network refuses the request that carries
  exactly this payload, the handler answers 500 \<open>Could not create stream ID\<close> with the
  text of that URL and leaves the server as it was.
\<close>

theorem HandlePush_webhook_url:
  "pushURL (r\<lparr>reqURL := (reqURL r)\<lparr>Scheme := scheme, Opaque := opaque, User := user,
                                   Host := host, RawPath := rawPath, ForceQuery := force,
                                   RawQuery := query, Fragment := fragment\<rparr>\<rparr>)
     = pushURL r
   \<and> Scheme (pushURL r) = ''http'' \<and> Host (pushURL r) = reqHost r
   \<and> Path (pushURL r) = Path (reqURL r)
   \<and> RawQuery (pushURL r) = [] \<and> Fragment (pushURL r) = []
   \<and> (Path (reqURL r) \<noteq> [] \<longrightarrow>
        URL_String env (pushURL r)
          = ''http://''
            @ (if reqHost r \<noteq> [] then escapeHost env (reqHost r) else [])
            @ (if escapePath env (Path (reqURL r)) \<noteq> []
                  \<and> hd (escapePath env (Path (reqURL r))) \<noteq> CHR ''/'' \<and> reqHost r \<noteq> []
               then ''/'' else [])
            @ escapePath env (Path (reqURL r)))
   \<and> (f (AuthWebhookURL env) (jsonMarshal env [(''url'', URL_String env (pushURL r))])
         = httpPost env (AuthWebhookURL env)
             (jsonMarshal env [(''url'', URL_String env (pushURL r))]) \<longrightarrow>
        HandlePush (env\<lparr>httpPost := f\<rparr>) s r = HandlePush env s r)
   \<and> (Method r' = ''POST'' \<or> Method r' = ''PUT'' \<longrightarrow> Body r' = Inr body \<longrightarrow>
        ProfileExtensionFormat (path_Ext (Path (reqURL r'))) \<noteq> FormatNone \<longrightarrow>
        parseManifestID env' (Path (reqURL r')) \<noteq> [] \<longrightarrow>
        rtmpConnections s' (resolveManifest s' (parseManifestID env' (Path (reqURL r')))) = None \<longrightarrow>
        AuthWebhookURL env' \<noteq> [] \<longrightarrow>
        httpPost env' (AuthWebhookURL env')
          (jsonMarshal env' [(''url'', URL_String env' (pushURL r'))]) = Inl err \<longrightarrow>
        HandlePush env' s' r'
          = (s', HttpError 500
                   (''Could not create stream ID: url='' @ URL_String env' (pushURL r'))))"
proof (intro conjI impI)
  show "Path (reqURL r) \<noteq> [] \<Longrightarrow>
        URL_String env (pushURL r)
          = ''http://''
            @ (if reqHost r \<noteq> [] then escapeHost env (reqHost r) else [])
            @ (if escapePath env (Path (reqURL r)) \<noteq> []
                  \<and> hd (escapePath env (Path (reqURL r))) \<noteq> CHR ''/'' \<and> reqHost r \<noteq> []
               then ''/'' else [])
            @ escapePath env (Path (reqURL r))"
    by (simp add: pushURL_String)
  show "f (AuthWebhookURL env) (jsonMarshal env [(''url'', URL_String env (pushURL r))])
         = httpPost env (AuthWebhookURL env)
             (jsonMarshal env [(''url'', URL_String env (pushURL r))]) \<Longrightarrow>
        HandlePush (env\<lparr>httpPost := f\<rparr>) s r = HandlePush env s r"
    by (rule HandlePush_post)
  show "Method r' = ''POST'' \<or> Method r' = ''PUT'' \<Longrightarrow> Body r' = Inr body \<Longrightarrow>
        ProfileExtensionFormat (path_Ext (Path (reqURL r'))) \<noteq> FormatNone \<Longrightarrow>
        parseManifestID env' (Path (reqURL r')) \<noteq> [] \<Longrightarrow>
        rtmpConnections s' (resolveManifest s' (parseManifestID env' (Path (reqURL r')))) = None \<Longrightarrow>
        AuthWebhookURL env' \<noteq> [] \<Longrightarrow>
        httpPost env' (AuthWebhookURL env')
          (jsonMarshal env' [(''url'', URL_String env' (pushURL r'))]) = Inl err \<Longrightarrow>
        HandlePush env' s' r'
          = (s', HttpError 500
                   (''Could not create stream ID: url='' @ URL_String env' (pushURL r')))"
    by (rule HandlePush_refused)
qed (simp_all add: pushURL_def)

text \<open>
  The theorem on \<open>webRequest\<close>, a push of \<open>/live/we b/0.mp4?token=x#frag\<close>. The webhook is
  sent \<open>http://example.com/live/we%20b/0.mp4\<close>. When it assigns the manifest \<open>intweb\<close>,
  the handler registers that manifest, and does the same when every other request to the
  network would fail. When the network refuses the request with this payload, and no
  other, the handler answers 500.
\<close>

theorem HandlePush_webhook_url_witness:
  "Path (reqURL webRequest) \<noteq> []
   \<and> URL_String webEnv (pushURL webRequest) = ''http://example.com/live/we%20b/0.mp4''
   \<and> HandlePush
        (webEnv\<lparr>httpPost := (\<lambda>u b. if b = ''url=http://example.com/live/we%20b/0.mp4''
                                     then Inr (200, ''intweb'')
                                     else Inl (errOther ''connection refused''))\<rparr>)
        server0 webRequest
       = HandlePush webEnv server0 webRequest
   \<and> rtmpConnections (fst (HandlePush webEnv server0 webRequest)) ''intweb'' = Some 0
   \<and> HandlePush (webEnv\<lparr>httpPost := refusing ''url=http://example.com/live/we%20b/0.mp4''\<rparr>)
        server0 webRequest
       = (server0,
          HttpError 500 ''Could not create stream ID: url=http://example.com/live/we%20b/0.mp4'')"
proof -
  let ?payload = "''url=http://example.com/live/we%20b/0.mp4''"
  let ?f = "\<lambda>u b. if b = ?payload then Inr (200, ''intweb'')
                   else Inl (errOther ''connection refused'')"
  let ?refused = "webEnv\<lparr>httpPost := refusing ?payload\<rparr>"
  have path: "Path (reqURL webRequest) \<noteq> []"
    by (simp add: fixture_defs)
  have url: "URL_String webEnv (pushURL webRequest) = ''http://example.com/live/we%20b/0.mp4''"
    by (simp add: model_defs fixture_defs Let_def)
  have url': "URL_String ?refused (pushURL webRequest) = ''http://example.com/live/we%20b/0.mp4''"
    by (simp add: model_defs fixture_defs Let_def)
  have same: "?f (AuthWebhookURL webEnv)
                 (jsonMarshal webEnv [(''url'', URL_String webEnv (pushURL webRequest))])
              = httpPost webEnv (AuthWebhookURL webEnv)
                  (jsonMarshal webEnv [(''url'', URL_String webEnv (pushURL webRequest))])"
    unfolding url by (simp add: fixture_defs)
  have registered: "rtmpConnections (fst (HandlePush webEnv server0 webRequest)) ''intweb'' = Some 0"
    by (simp add: model_defs fixture_defs Let_def)
  have h1: "Method webRequest = ''POST'' \<or> Method webRequest = ''PUT''"
    by (simp add: fixture_defs)
  have h2: "Body webRequest = Inr []"
    by (simp add: fixture_defs)
  have h3: "ProfileExtensionFormat (path_Ext (Path (reqURL webRequest))) \<noteq> FormatNone"
    by (simp add: model_defs fixture_defs)
  have h4: "parseManifestID ?refused (Path (reqURL webRequest)) \<noteq> []"
    by (simp add: model_defs fixture_defs)
  have h5: "rtmpConnections server0
              (resolveManifest server0 (parseManifestID ?refused (Path (reqURL webRequest)))) = None"
    by (simp add: server0_def)
  have h6: "AuthWebhookURL ?refused \<noteq> []"
    by (simp add: fixture_defs)
  have h7: "httpPost ?refused (AuthWebhookURL ?refused)
              (jsonMarshal ?refused [(''url'', URL_String ?refused (pushURL webRequest))])
            = Inl (errOther ''connection refused'')"
    unfolding url' by (simp add: fixture_defs)
  note inst = HandlePush_webhook_url
                [where r = webRequest and env = webEnv and f = ?f and s = server0
                   and r' = webRequest and env' = ?refused and s' = server0 and body = "[]"
                   and err = "errOther ''connection refused''"]
  from inst same
  have post: "HandlePush (webEnv\<lparr>httpPost := ?f\<rparr>) server0 webRequest
                = HandlePush webEnv server0 webRequest"
    by blast
  from inst h1 h2 h3 h4 h5 h6 h7
  have "HandlePush ?refused server0 webRequest
          = (server0, HttpError 500
               (''Could not create stream ID: url='' @ URL_String ?refused (pushURL webRequest)))"
    by blast
  then have refused: "HandlePush ?refused server0 webRequest
          = (server0,
             HttpError 500 ''Could not create stream ID: url=http://example.com/live/we%20b/0.mp4'')"
    unfolding url' by simp
  show ?thesis
    by (rule conjI[OF path conjI[OF url conjI[OF post conjI[OF registered refused]]]])
qed

section \<open>What each step of HandlePush does to the server\<close>

lemma setOutputFormats_Array:
  "\<exists>ph. setOutputFormats format (Array a) i vs s = s\<lparr>profHeap := ph\<rparr>"
proof (induction vs arbitrary: i s)
  case Nil
  have "s = s\<lparr>profHeap := profHeap s\<rparr>" by simp
  then show ?case by (metis setOutputFormats.simps(1))
next
  case (Cons v vs)
  show ?case
  proof (cases "Format v = FormatNone")
    case True
    obtain ph where "setOutputFormats format (Array a) (Suc i) vs (storeFormat s (Array a) i format)
                       = (storeFormat s (Array a) i format)\<lparr>profHeap := ph\<rparr>"
      using Cons.IH by blast
    with True show ?thesis by (auto simp: storeFormat_def)
  next
    case False
    with Cons.IH[of "Suc i" s] show ?thesis by simp
  qed
qed

lemma setOutputFormats_contents:
  "a < length (profHeap s) \<Longrightarrow> vs = drop i (profHeap s ! a) \<Longrightarrow>
   profHeap (setOutputFormats format (Array a) i vs s) ! a
     = take i (profHeap s ! a)
       @ map (\<lambda>v. if Format v = FormatNone then v\<lparr>Format := format\<rparr> else v) vs"
proof (induction vs arbitrary: i s)
  case Nil
  then show ?case by simp
next
  case (Cons v vs)
  let ?xs = "profHeap s ! a"
  from Cons.prems(2) have i: "i < length ?xs"
    by (metis drop_all list.distinct(1) not_le)
  from Cons.prems(2) i have v: "?xs ! i = v" and rest: "drop (Suc i) ?xs = vs"
    by (simp_all add: Cons_nth_drop_Suc[symmetric])
  let ?s' = "if Format v = FormatNone then storeFormat s (Array a) i format else s"
  let ?w = "if Format v = FormatNone then v\<lparr>Format := format\<rparr> else v"
  have heap': "profHeap ?s' ! a = ?xs[i := ?w]" and len': "a < length (profHeap ?s')"
    using Cons.prems(1) v i by (auto simp: storeFormat_def)
  have "profHeap (setOutputFormats format (Array a) (Suc i) vs ?s') ! a
          = take (Suc i) (profHeap ?s' ! a)
            @ map (\<lambda>v. if Format v = FormatNone then v\<lparr>Format := format\<rparr> else v) vs"
    using len' rest heap' by (intro Cons.IH) simp_all
  also have "take (Suc i) (profHeap ?s' ! a) = take i ?xs @ [?w]"
    using i by (simp add: heap' take_Suc_conv_app_nth)
  finally show ?case by simp
qed

lemma setOutputFormats_length:
  "length (profHeap (setOutputFormats format (Array a) i vs s)) = length (profHeap s)"
  by (induction vs arbitrary: i s) (simp_all add: storeFormat_def)

lemma createRTMPStreamIDHandler_cases:
  assumes "createRTMPStreamIDHandler env s url = (s1, res)"
  shows "(res = None \<and> s1 = s)
         \<or> (\<exists>prms profiles. res = Some prms
               \<and> s1 = s\<lparr>profHeap := profHeap s @ [profiles]\<rparr>
               \<and> Profiles prms = Array (length (profHeap s)))"
  using assms
  by (auto simp: createRTMPStreamIDHandler_def Let_def
           split: sum.splits option.splits prod.splits if_splits)

lemma removeRTMPStream_cases:
  assumes "removeRTMPStream s x = (s', err)"
  shows "(err = Some errUnknownStream \<and> s' = s)
         \<or> (\<exists>p. err = None \<and> rtmpConnections s (resolveManifest s x) = Some p
               \<and> pl (cxnHeap s ! p) \<noteq> None
               \<and> s' = s\<lparr>cxnHeap := (cxnHeap s)[p := endConnection (cxnHeap s ! p)],
                        rtmpConnections := (rtmpConnections s)(resolveManifest s x := None),
                        internalManifests := (internalManifests s)(x := None)\<rparr>)"
  using assms
  by (auto simp: removeRTMPStream_def Let_def split: option.splits if_splits)

lemma registerConnection_cases:
  assumes "registerConnection env s st = (s', c, err)"
  shows "(err \<noteq> None \<and> s' = s
            \<and> (c = None \<or> (\<exists>prms. AppData st = Some prms
                               \<and> c = rtmpConnections s (ManifestID prms))))
         \<or> (\<exists>prms cxn. err = None \<and> AppData st = Some prms
               \<and> rtmpConnections s (ManifestID prms) = None
               \<and> c = Some (length (cxnHeap s))
               \<and> s' = s\<lparr>cxnHeap := cxnHeap s @ [cxn],
                        rtmpConnections :=
                          (rtmpConnections s)(ManifestID prms \<mapsto> length (cxnHeap s)),
                        lastManifestID := ManifestID prms\<rparr>
               \<and> mid cxn = ManifestID prms \<and> pl cxn \<noteq> None
               \<and> Profiles (params cxn) = Profiles prms
               \<and> Format (profile cxn) = pFormat prms
               \<and> closed (stream cxn) = closed st)"
  using assms
  by (auto simp: registerConnection_def Let_def
           split: sum.splits option.splits if_splits)

lemma findOldStreamID_result:
  "findOldStreamID ks im t = [] \<or> im (findOldStreamID ks im t) = Some t"
  by (induction ks) simp_all


lemma endOldStream_cases:
  "endOldStream env s m prms = s
   \<or> (m \<noteq> ManifestID prms \<and> rtmpConnections s (ManifestID prms) \<noteq> None
        \<and> findOldStreamID (rangeOrder env) (internalManifests s) (ManifestID prms) \<noteq> []
        \<and> findOldStreamID (rangeOrder env) (internalManifests s) (ManifestID prms) \<noteq> m
        \<and> internalManifests s
             (findOldStreamID (rangeOrder env) (internalManifests s) (ManifestID prms))
             = Some (ManifestID prms)
        \<and> endOldStream env s m prms
             = fst (removeRTMPStream s
                     (findOldStreamID (rangeOrder env) (internalManifests s) (ManifestID prms))))"
  using findOldStreamID_result[of "rangeOrder env" "internalManifests s" "ManifestID prms"]
  by (auto simp: endOldStream_def Let_def)

lemma removeRTMPStream_frame:
  "profHeap (fst (removeRTMPStream s x)) = profHeap s"
  "BroadcastJobVideoProfiles (fst (removeRTMPStream s x)) = BroadcastJobVideoProfiles s"
  "length (cxnHeap (fst (removeRTMPStream s x))) = length (cxnHeap s)"
  "reapers (fst (removeRTMPStream s x)) = reapers s"
  by (auto simp: removeRTMPStream_def Let_def split: option.splits)

lemma endOldStream_frame:
  "profHeap (endOldStream env s m prms) = profHeap s"
  "BroadcastJobVideoProfiles (endOldStream env s m prms) = BroadcastJobVideoProfiles s"
  "length (cxnHeap (endOldStream env s m prms)) = length (cxnHeap s)"
  "reapers (endOldStream env s m prms) = reapers s"
  using endOldStream_cases[of env s m prms] by (auto simp: removeRTMPStream_frame)

lemma prepareStream_Array:
  assumes "Profiles prms = Array a"
  shows "\<exists>ph. prepareStream env s m format prms = (endOldStream env s m prms)\<lparr>profHeap := ph\<rparr>
           \<and> length ph = length (profHeap s)
           \<and> (a < length (profHeap s) \<longrightarrow>
                ph ! a = map (\<lambda>v. if Format v = FormatNone then v\<lparr>Format := format\<rparr> else v)
                            (profHeap s ! a))"
proof -
  let ?s2 = "endOldStream env s m prms"
  let ?s3 = "setOutputFormats format (Array a) 0 (readSlice ?s2 (Array a)) ?s2"
  obtain ph where ph: "?s3 = ?s2\<lparr>profHeap := ph\<rparr>"
    using setOutputFormats_Array by blast
  then have ph_eq: "ph = profHeap ?s3" by (metis LivepeerServer.select_convs(5)
        LivepeerServer.surjective LivepeerServer.update_convs(5))
  have len: "length ph = length (profHeap s)"
    by (simp add: ph_eq setOutputFormats_length endOldStream_frame)
  have "ph ! a = map (\<lambda>v. if Format v = FormatNone then v\<lparr>Format := format\<rparr> else v)
                   (profHeap s ! a)" if "a < length (profHeap s)"
  proof -
    from that have a: "a < length (profHeap ?s2)" by (simp add: endOldStream_frame)
    have "profHeap ?s3 ! a
            = take 0 (profHeap ?s2 ! a)
              @ map (\<lambda>v. if Format v = FormatNone then v\<lparr>Format := format\<rparr> else v)
                    (readSlice ?s2 (Array a))"
      using a by (intro setOutputFormats_contents) (simp_all add: readSlice_def)
    with a show ?thesis by (simp add: ph_eq readSlice_def endOldStream_frame)
  qed
  with ph len assms show ?thesis by (auto simp: prepareStream_def Let_def)
qed

lemma registerStream_cases:
  assumes "registerStream env s url m prms = (s', res)"
  shows "(s' = s \<and> (\<exists>resp. res = Inl resp))
         \<or> (\<exists>c. rtmpConnections s (ManifestID prms) = Some c
               \<and> s' = fst (bindInternalManifest s c m)
               \<and> res = Inr (c, snd (bindInternalManifest s c m)))
         \<or> (\<exists>cxn. rtmpConnections s (ManifestID prms) = None
               \<and> mid cxn = ManifestID prms \<and> pl cxn \<noteq> None \<and> \<not> closed (stream cxn)
               \<and> Profiles (params cxn) = Profiles prms
               \<and> Format (profile cxn) = pFormat prms
               \<and> s' = fst (bindInternalManifest
                           (s\<lparr>cxnHeap := cxnHeap s @ [cxn],
                              rtmpConnections :=
                                (rtmpConnections s)(ManifestID prms \<mapsto> length (cxnHeap s)),
                              lastManifestID := ManifestID prms,
                              reapers := reapers s @ [(ManifestID prms, m)]\<rparr>)
                           (length (cxnHeap s)) m)
               \<and> res = Inr (length (cxnHeap s),
                            if ManifestID prms \<noteq> m then ManifestID prms else m))"
proof -
  let ?st = "\<lparr>AppData = Some prms, Width = 0, Height = 0, closed = False\<rparr>"
  obtain s4 c err where reg: "registerConnection env s ?st = (s4, c, err)"
    by (cases "registerConnection env s ?st") auto
  from registerConnection_cases[OF reg]
  consider
    (fail) er where "err = Some er" "s4 = s"
        "c = None \<or> c = rtmpConnections s (ManifestID prms)"
  | (new) cxn where "err = None" "rtmpConnections s (ManifestID prms) = None"
        "c = Some (length (cxnHeap s))"
        "s4 = s\<lparr>cxnHeap := cxnHeap s @ [cxn],
                 rtmpConnections :=
                   (rtmpConnections s)(ManifestID prms \<mapsto> length (cxnHeap s)),
                 lastManifestID := ManifestID prms\<rparr>"
        "mid cxn = ManifestID prms" "pl cxn \<noteq> None"
        "Profiles (params cxn) = Profiles prms" "Format (profile cxn) = pFormat prms"
        "\<not> closed (stream cxn)"
    by auto
  then show ?thesis
  proof cases
    case fail
    show ?thesis
    proof (cases "er \<noteq> errAlreadyExists \<or> c = None")
      case True
      with assms reg fail have "s' = s \<and> (\<exists>resp. res = Inl resp)"
        by (auto simp: registerStream_def split: if_splits)
      then show ?thesis by blast
    next
      case False
      then obtain p where p: "c = Some p" by auto
      with fail have "rtmpConnections s (ManifestID prms) = Some p" by auto
      moreover from assms reg fail False p
      have "s' = fst (bindInternalManifest s p m)
            \<and> res = Inr (p, snd (bindInternalManifest s p m))"
        by (auto simp: registerStream_def split: prod.splits)
      ultimately show ?thesis by blast
    qed
  next
    case new
    from assms reg new(1,3,4,5)
    have "s' = fst (bindInternalManifest
                      (s\<lparr>cxnHeap := cxnHeap s @ [cxn],
                         rtmpConnections :=
                           (rtmpConnections s)(ManifestID prms \<mapsto> length (cxnHeap s)),
                         lastManifestID := ManifestID prms,
                         reapers := reapers s @ [(ManifestID prms, m)]\<rparr>)
                      (length (cxnHeap s)) m)
          \<and> res = Inr (length (cxnHeap s), if ManifestID prms \<noteq> m then ManifestID prms else m)"
      by (auto simp: registerStream_def bindInternalManifest_def Let_def split: prod.splits)
    with new show ?thesis by blast
  qed
qed

lemma applyOutcome_keeps:
  "mid (applyOutcome out cxn) = mid cxn"
  "params (applyOutcome out cxn) = params cxn"
  "profile (applyOutcome out cxn) = profile cxn"
  "stream (applyOutcome out cxn) = stream cxn"
  "sessManager (applyOutcome out cxn) = sessManager cxn"
  "(pl (applyOutcome out cxn) = None) = (pl cxn = None)"
  by (simp_all add: applyOutcome_def)

lemma processPush_state:
  "\<exists>out. fst (processPush env s r url ext body cxn m)
           = s\<lparr>cxnHeap := (cxnHeap s)[cxn := applyOutcome out (cxnHeap s ! cxn)]\<rparr>"
  by (auto simp: processPush_def Let_def split: sum.splits)

lemma HandlePush_cases:
  assumes "HandlePush env s r = (s', resp)"
  shows "s' = s
         \<or> (\<exists>s1 res.
               bindConnection env s r (pushURL r)
                 (ProfileExtensionFormat (path_Ext (Path (pushURL r))))
                 (parseManifestID env (Path (pushURL r))) = (s1, res)
             \<and> ProfileExtensionFormat (path_Ext (Path (pushURL r))) \<noteq> FormatNone
             \<and> parseManifestID env (Path (pushURL r)) \<noteq> []
             \<and> (case res of
                   Inl rsp \<Rightarrow> s' = s1
                 | Inr cm \<Rightarrow>
                     (\<exists>out. s' = s1\<lparr>cxnHeap :=
                               (cxnHeap s1)[fst cm := applyOutcome out (cxnHeap s1 ! fst cm)]\<rparr>)))"
proof -
  let ?url = "pushURL r"
  let ?bind = "bindConnection env s r ?url (ProfileExtensionFormat (path_Ext (Path ?url)))
                 (parseManifestID env (Path ?url))"
  obtain s1 res where bind: "?bind = (s1, res)" by (cases ?bind) auto
  show ?thesis
  proof (cases "s' = s")
    case True
    then show ?thesis by simp
  next
    case False
    with assms obtain body where body: "Body r = Inr body"
      and fmt: "ProfileExtensionFormat (path_Ext (Path ?url)) \<noteq> FormatNone"
      and m0: "parseManifestID env (Path ?url) \<noteq> []"
      by (cases "Body r") (auto simp: HandlePush_def Let_def split: if_splits)
    from assms body fmt m0 bind False
    have rest: "(case res of Inl rsp \<Rightarrow> (s1, rsp)
                 | Inr cm \<Rightarrow> processPush env s1 r ?url (path_Ext (Path ?url)) body (fst cm) (snd cm))
                = (s', resp)"
      by (auto simp: HandlePush_def Let_def split: if_splits sum.splits prod.splits)
    have "case res of
            Inl rsp \<Rightarrow> s' = s1
          | Inr cm \<Rightarrow>
              (\<exists>out. s' = s1\<lparr>cxnHeap :=
                        (cxnHeap s1)[fst cm := applyOutcome out (cxnHeap s1 ! fst cm)]\<rparr>)"
    proof (cases res)
      case (Inl rsp)
      with rest show ?thesis by simp
    next
      case (Inr cm)
      with rest have "fst (processPush env s1 r ?url (path_Ext (Path ?url)) body (fst cm) (snd cm)) = s'"
        by simp
      with processPush_state[of env s1 r ?url "path_Ext (Path ?url)" body "fst cm" "snd cm"] Inr
      show ?thesis by auto
    qed
    with bind fmt m0 show ?thesis by blast
  qed
qed

lemma bindInternalManifest_frame:
  "cxnHeap (fst (bindInternalManifest s c m)) = cxnHeap s"
  "profHeap (fst (bindInternalManifest s c m)) = profHeap s"
  "rtmpConnections (fst (bindInternalManifest s c m)) = rtmpConnections s"
  "BroadcastJobVideoProfiles (fst (bindInternalManifest s c m)) = BroadcastJobVideoProfiles s"
  by (simp_all add: bindInternalManifest_def)

section \<open>The formats of a new connection\<close>

lemma registerPush_new:
  assumes run: "registerPush env s r url format m = (s1, res)"
      and len: "length (cxnHeap s1) = Suc (length (cxnHeap s))"
  shows "\<exists>sA params0 mm.
           createRTMPStreamIDHandler env s url = (sA, Some params0)
         \<and> res = Inr (length (cxnHeap s), mm)
         \<and> mid (cxnHeap s1 ! length (cxnHeap s)) = ManifestID params0
         \<and> Format (profile (cxnHeap s1 ! length (cxnHeap s))) = format
         \<and> Profiles (params (cxnHeap s1 ! length (cxnHeap s))) = Profiles params0
         \<and> readSlice s1 (Profiles params0)
             = map (\<lambda>v. if Format v = FormatNone then v\<lparr>Format := format\<rparr> else v)
                   (readSlice sA (Profiles params0))
         \<and> rtmpConnections s1 (ManifestID params0) = Some (length (cxnHeap s))"
proof -
  obtain sA created where create: "createRTMPStreamIDHandler env s url = (sA, created)"
    by (cases "createRTMPStreamIDHandler env s url") auto
  from createRTMPStreamIDHandler_cases[OF create]
  consider (none) "created = None" "sA = s"
    | (some) params0 profiles where "created = Some params0"
        "sA = s\<lparr>profHeap := profHeap s @ [profiles]\<rparr>"
        "Profiles params0 = Array (length (profHeap s))"
    by blast
  then show ?thesis
  proof cases
    case none
    with run create have "s1 = s" by (simp add: registerPush_def)
    with len show ?thesis by simp
  next
    case some
    let ?a = "length (profHeap s)"
    let ?prms = "pushParams r format params0"
    let ?sB = "prepareStream env sA m format ?prms"
    have prms: "Profiles ?prms = Array ?a" "ManifestID ?prms = ManifestID params0"
               "pFormat ?prms = format"
      using some(3) by (simp_all add: pushParams_def)
    obtain ph where sB: "?sB = (endOldStream env sA m ?prms)\<lparr>profHeap := ph\<rparr>"
      and phlen: "length ph = length (profHeap sA)"
      and pha: "?a < length (profHeap sA) \<longrightarrow>
                 ph ! ?a = map (\<lambda>v. if Format v = FormatNone then v\<lparr>Format := format\<rparr> else v)
                               (profHeap sA ! ?a)"
      using prepareStream_Array[OF prms(1), of env sA m format] by blast
    have "length (cxnHeap ?sB) = length (cxnHeap sA)"
      by (simp add: sB endOldStream_frame)
    then have lenB: "length (cxnHeap ?sB) = length (cxnHeap s)"
      by (simp add: some(2))
    from run create some(1)
    have reg: "registerStream env ?sB url m ?prms = (s1, res)"
      by (simp add: registerPush_def Let_def)
    from registerStream_cases[OF reg]
    consider (fail) "s1 = ?sB"
      | (old) c where "s1 = fst (bindInternalManifest ?sB c m)"
      | (new) cxn where "mid cxn = ManifestID ?prms"
          "Profiles (params cxn) = Profiles ?prms" "Format (profile cxn) = pFormat ?prms"
          "s1 = fst (bindInternalManifest
                      (?sB\<lparr>cxnHeap := cxnHeap ?sB @ [cxn],
                           rtmpConnections :=
                             (rtmpConnections ?sB)(ManifestID ?prms \<mapsto> length (cxnHeap ?sB)),
                           lastManifestID := ManifestID ?prms,
                           reapers := reapers ?sB @ [(ManifestID ?prms, m)]\<rparr>)
                      (length (cxnHeap ?sB)) m)"
          "res = Inr (length (cxnHeap ?sB),
                      if ManifestID ?prms \<noteq> m then ManifestID ?prms else m)"
      by blast
    then show ?thesis
    proof cases
      case fail
      with len lenB show ?thesis by simp
    next
      case old
      with len lenB show ?thesis by (simp add: bindInternalManifest_frame)
    next
      case new
      have heap1: "cxnHeap s1 = cxnHeap ?sB @ [cxn]"
        and prof1: "profHeap s1 = ph"
        and conn1: "rtmpConnections s1 (ManifestID params0) = Some (length (cxnHeap s))"
        using prms(2) lenB
        by (simp_all add: new(4) bindInternalManifest_frame) (simp add: sB)
      have cx: "cxnHeap s1 ! length (cxnHeap s) = cxn"
        using lenB by (simp add: heap1 nth_append)
      have slice: "readSlice s1 (Profiles params0)
                     = map (\<lambda>v. if Format v = FormatNone then v\<lparr>Format := format\<rparr> else v)
                           (readSlice sA (Profiles params0))"
        using pha phlen by (simp add: readSlice_def some(2,3) prof1)
      from create some(1,3) new(1,2,3,5) prms lenB cx slice conn1 show ?thesis
        by auto
    qed
  qed
qed

lemma keepsFormats_refl: "keepsFormats s s"
  by (simp add: keepsFormats_def)

lemma keepsFormats_trans:
  assumes st: "keepsFormats s t" and tu: "keepsFormats t u"
  shows "keepsFormats s u"
proof -
  from st have len: "length (cxnHeap s) \<le> length (cxnHeap t)"
    "length (profHeap s) \<le> length (profHeap t)"
    by (simp_all add: keepsFormats_def)
  have "profile (cxnHeap u ! q) = profile (cxnHeap s ! q)
        \<and> params (cxnHeap u ! q) = params (cxnHeap s ! q)" if "q < length (cxnHeap s)" for q
  proof -
    from that len have "q < length (cxnHeap t)" by simp
    with tu have "profile (cxnHeap u ! q) = profile (cxnHeap t ! q)
                  \<and> params (cxnHeap u ! q) = params (cxnHeap t ! q)"
      by (simp add: keepsFormats_def)
    with st that show ?thesis by (simp add: keepsFormats_def)
  qed
  moreover have "profHeap u ! a = profHeap s ! a" if "a < length (profHeap s)" for a
  proof -
    from that len have "a < length (profHeap t)" by simp
    with tu have "profHeap u ! a = profHeap t ! a" by (simp add: keepsFormats_def)
    with st that show ?thesis by (simp add: keepsFormats_def)
  qed
  moreover from st tu have "length (cxnHeap s) \<le> length (cxnHeap u)"
    "length (profHeap s) \<le> length (profHeap u)"
    by (simp_all add: keepsFormats_def)
  ultimately show ?thesis by (simp add: keepsFormats_def)
qed

lemma keepsFormats_cong:
  "keepsFormats s t \<Longrightarrow> cxnHeap t' = cxnHeap t \<Longrightarrow> profHeap t' = profHeap t \<Longrightarrow>
   keepsFormats s t'"
  by (simp add: keepsFormats_def)

lemma keepsFormats_update:
  assumes "profile (f (cxnHeap s ! c)) = profile (cxnHeap s ! c)"
      and "params (f (cxnHeap s ! c)) = params (cxnHeap s ! c)"
  shows "keepsFormats s (s\<lparr>cxnHeap := (cxnHeap s)[c := f (cxnHeap s ! c)]\<rparr>)"
proof -
  have "profile ((cxnHeap s)[c := f (cxnHeap s ! c)] ! q) = profile (cxnHeap s ! q)
        \<and> params ((cxnHeap s)[c := f (cxnHeap s ! c)] ! q) = params (cxnHeap s ! q)"
    if "q < length (cxnHeap s)" for q
    using that assms by (cases "q = c") simp_all
  then show ?thesis by (simp add: keepsFormats_def)
qed

lemma removeRTMPStream_keeps: "keepsFormats s (fst (removeRTMPStream s x))"
proof -
  obtain s' err where run: "removeRTMPStream s x = (s', err)"
    by (cases "removeRTMPStream s x") auto
  from removeRTMPStream_cases[OF run]
  consider "s' = s"
    | p where "s' = s\<lparr>cxnHeap := (cxnHeap s)[p := endConnection (cxnHeap s ! p)],
                       rtmpConnections := (rtmpConnections s)(resolveManifest s x := None),
                       internalManifests := (internalManifests s)(x := None)\<rparr>"
    by blast
  then have "keepsFormats s s'"
  proof cases
    case 1
    then show ?thesis by (simp add: keepsFormats_refl)
  next
    case 2
    have "keepsFormats s (s\<lparr>cxnHeap := (cxnHeap s)[p := endConnection (cxnHeap s ! p)]\<rparr>)"
      by (rule keepsFormats_update) (simp_all add: endConnection_def)
    then show ?thesis unfolding 2 by (rule keepsFormats_cong) simp_all
  qed
  with run show ?thesis by simp
qed

lemma endOldStream_keeps: "keepsFormats s (endOldStream env s m prms)"
  using endOldStream_cases[of env s m prms]
  by (auto simp: keepsFormats_refl removeRTMPStream_keeps)

lemma setOutputFormats_other:
  "b \<noteq> a \<Longrightarrow> profHeap (setOutputFormats format (Array a) i vs s) ! b = profHeap s ! b"
  by (induction vs arbitrary: i s) (simp_all add: storeFormat_def)

lemma setOutputFormats_cxnHeap:
  "cxnHeap (setOutputFormats format (Array a) i vs s) = cxnHeap s"
  by (induction vs arbitrary: i s) (simp_all add: storeFormat_def)

lemma registerStream_keeps: "keepsFormats s (fst (registerStream env s url m prms))"
proof -
  obtain s' res where run: "registerStream env s url m prms = (s', res)"
    by (cases "registerStream env s url m prms") auto
  from registerStream_cases[OF run]
  consider (fail) "s' = s"
    | (old) c where "s' = fst (bindInternalManifest s c m)"
    | (new) cxn where
        "s' = fst (bindInternalManifest
                    (s\<lparr>cxnHeap := cxnHeap s @ [cxn],
                       rtmpConnections :=
                         (rtmpConnections s)(ManifestID prms \<mapsto> length (cxnHeap s)),
                       lastManifestID := ManifestID prms,
                       reapers := reapers s @ [(ManifestID prms, m)]\<rparr>)
                    (length (cxnHeap s)) m)"
    by blast
  then have "keepsFormats s s'"
  proof cases
    case fail
    then show ?thesis by (simp add: keepsFormats_refl)
  next
    case old
    show ?thesis unfolding old
      by (rule keepsFormats_cong[OF keepsFormats_refl]) (simp_all add: bindInternalManifest_frame)
  next
    case new
    show ?thesis unfolding new
      by (simp add: keepsFormats_def bindInternalManifest_frame nth_append)
  qed
  with run show ?thesis by simp
qed

lemma registerPush_keeps: "keepsFormats s (fst (registerPush env s r url format m))"
proof -
  obtain sA created where create: "createRTMPStreamIDHandler env s url = (sA, created)"
    by (cases "createRTMPStreamIDHandler env s url") auto
  from createRTMPStreamIDHandler_cases[OF create]
  consider (none) "created = None" "sA = s"
    | (some) params0 profiles where "created = Some params0"
        "sA = s\<lparr>profHeap := profHeap s @ [profiles]\<rparr>"
        "Profiles params0 = Array (length (profHeap s))"
    by blast
  then show ?thesis
  proof cases
    case none
    with create show ?thesis by (simp add: registerPush_def keepsFormats_refl)
  next
    case some
    let ?a = "length (profHeap s)"
    let ?prms = "pushParams r format params0"
    let ?s2 = "endOldStream env sA m ?prms"
    let ?sB = "prepareStream env sA m format ?prms"
    have prms: "Profiles ?prms = Array ?a"
      using some(3) by (simp add: pushParams_def)
    have sB: "?sB = setOutputFormats format (Array ?a) 0 (readSlice ?s2 (Array ?a)) ?s2"
      by (simp add: prepareStream_def Let_def prms)
    have s2: "keepsFormats sA ?s2" by (rule endOldStream_keeps)
    have cx: "cxnHeap ?sB = cxnHeap ?s2"
      unfolding sB by (simp add: setOutputFormats_cxnHeap)
    have plen: "length (profHeap ?sB) = Suc ?a"
      unfolding sB by (simp add: setOutputFormats_length endOldStream_frame some(2))
    have arr: "profHeap ?sB ! b = profHeap s ! b" if "b < ?a" for b
    proof -
      from that have "b \<noteq> ?a" by simp
      then have "profHeap ?sB ! b = profHeap ?s2 ! b"
        unfolding sB by (simp add: setOutputFormats_other)
      also have "\<dots> = profHeap sA ! b" by (simp add: endOldStream_frame)
      also have "\<dots> = profHeap s ! b" using that by (simp add: some(2) nth_append)
      finally show ?thesis .
    qed
    have sA: "cxnHeap sA = cxnHeap s" by (simp add: some(2))
    from s2 have c2: "length (cxnHeap s) \<le> length (cxnHeap ?s2)"
      and q2: "\<And>q. q < length (cxnHeap s) \<Longrightarrow>
                 profile (cxnHeap ?s2 ! q) = profile (cxnHeap s ! q)
                 \<and> params (cxnHeap ?s2 ! q) = params (cxnHeap s ! q)"
      unfolding keepsFormats_def sA by simp_all
    have "keepsFormats s ?sB"
      unfolding keepsFormats_def cx using c2 q2 arr plen by simp
    from keepsFormats_trans[OF this registerStream_keeps[of ?sB env url m ?prms]]
    show ?thesis using create some(1) by (simp add: registerPush_def Let_def)
  qed
qed

lemma bindConnection_keeps: "keepsFormats s (fst (bindConnection env s r url format m0))"
proof (cases "rtmpConnections s (resolveManifest s m0)")
  case (Some c)
  have "keepsFormats s
          (s\<lparr>cxnHeap := (cxnHeap s)[c := (\<lambda>x. x\<lparr>lastUsed := timeNow env\<rparr>) (cxnHeap s ! c)]\<rparr>)"
    by (rule keepsFormats_update) simp_all
  with Some show ?thesis by (simp add: bindConnection_def Let_def)
next
  case None
  with registerPush_keeps[of s env r url format "resolveManifest s m0"] show ?thesis
    by (simp add: bindConnection_def Let_def)
qed

lemma HandlePush_keeps: "keepsFormats s (fst (HandlePush env s r))"
proof -
  obtain s' resp where run: "HandlePush env s r = (s', resp)"
    by (cases "HandlePush env s r") auto
  from HandlePush_cases[OF run] have "keepsFormats s s'"
  proof (elim disjE exE conjE)
    assume "s' = s"
    then show ?thesis by (simp add: keepsFormats_refl)
  next
    fix s1 res
    assume bind: "bindConnection env s r (pushURL r)
                    (ProfileExtensionFormat (path_Ext (Path (pushURL r))))
                    (parseManifestID env (Path (pushURL r))) = (s1, res)"
      and rest: "case res of
                   Inl rsp \<Rightarrow> s' = s1
                 | Inr cm \<Rightarrow>
                     (\<exists>out. s' = s1\<lparr>cxnHeap :=
                               (cxnHeap s1)[fst cm := applyOutcome out (cxnHeap s1 ! fst cm)]\<rparr>)"
    from bindConnection_keeps[of s env r "pushURL r"
           "ProfileExtensionFormat (path_Ext (Path (pushURL r)))"
           "parseManifestID env (Path (pushURL r))"] bind
    have k1: "keepsFormats s s1" by simp
    show ?thesis
    proof (cases res)
      case (Inl rsp)
      with rest k1 show ?thesis by simp
    next
      case (Inr cm)
      with rest obtain out where
        s': "s' = s1\<lparr>cxnHeap := (cxnHeap s1)[fst cm := applyOutcome out (cxnHeap s1 ! fst cm)]\<rparr>"
        by auto
      have "keepsFormats s1 s'" unfolding s'
        by (rule keepsFormats_update) (simp_all add: applyOutcome_keeps)
      with k1 show ?thesis by (rule keepsFormats_trans)
    qed
  qed
  with run show ?thesis by simp
qed

lemma mp4OnTs_server:
  "rtmpConnections tsServer = [''a'' \<mapsto> 0]"
  "internalManifests tsServer = Map.empty"
  "length (cxnHeap tsServer) = 1"
  "length (profHeap tsServer) = 1"
  "rtmpConnections mp4OnTs = [''a'' \<mapsto> 0]"
  "internalManifests mp4OnTs = [''b'' \<mapsto> ''a'']"
  "length (cxnHeap mp4OnTs) = 1"
  "Format (profile (cxnHeap mp4OnTs ! 0)) = FormatMPEGTS"
  "Profiles (params (cxnHeap mp4OnTs ! 0)) = Array 0"
  "map Format (profHeap mp4OnTs ! 0) = [FormatMPEGTS, FormatMPEGTS]"
  "length (profHeap mp4OnTs) = 2"
  by (simp_all add: model_defs fixture_defs Let_def)

lemma mp4OnTs_response:
  "snd (HandlePush (hookSegEnv ''a'') tsServer
          (pushRequest ''/live/b/0.mp4'')) = Ok200"
  by (simp add: model_defs fixture_defs Let_def)

text \<open>
  C8, as stated, has every first push for a new identity set the formats of the
  connection from the extension of the URL. In \<open>mp4OnTs\<close> the push of \<open>/live/b/0.mp4\<close>
  is the first push for the identity \<open>b\<close>, which has neither a connection nor a binding.
  The webhook assigns it to the manifest \<open>a\<close>, registerConnection returns
  \<open>errAlreadyExists\<close>, and the handler goes on with the connection \<open>a\<close>: no record is
  created, the request is answered with 200, \<open>b\<close> is bound to \<open>a\<close>, and the source
  profile and the output profiles of the connection keep the format MPEGTS, while the
  format of the extension is MP4.
\<close>

theorem first_push_keeps_formats_counterexample:
  "rtmpConnections tsServer ''b'' = None
   \<and> internalManifests tsServer ''b'' = None
   \<and> ProfileExtensionFormat (path_Ext (Path (reqURL (pushRequest ''/live/b/0.mp4'')))) = FormatMP4
   \<and> snd (HandlePush (hookSegEnv ''a'') tsServer
            (pushRequest ''/live/b/0.mp4'')) = Ok200
   \<and> length (cxnHeap mp4OnTs) = length (cxnHeap tsServer)
   \<and> internalManifests mp4OnTs ''b'' = Some ''a''
   \<and> rtmpConnections mp4OnTs ''a'' = Some 0
   \<and> Format (profile (cxnHeap mp4OnTs ! 0)) = FormatMPEGTS
   \<and> map Format (readSlice mp4OnTs
                    (Profiles (params (cxnHeap mp4OnTs ! 0))))
       = [FormatMPEGTS, FormatMPEGTS]"
proof -
  have ext: "ProfileExtensionFormat (path_Ext (Path (reqURL (pushRequest ''/live/b/0.mp4''))))
               = FormatMP4"
    by (simp add: model_defs fixture_defs)
  have slice: "map Format (readSlice mp4OnTs
                             (Profiles (params (cxnHeap mp4OnTs ! 0))))
                 = [FormatMPEGTS, FormatMPEGTS]"
    by (simp add: readSlice_def mp4OnTs_server)
  show ?thesis
    using ext slice mp4OnTs_response by (simp add: mp4OnTs_server)
qed

text \<open>
  C8, amended. When HandlePush has created a connection (the heap of connections has
  grown by one record), the format \<open>f\<close> of the URL's extension is not \<open>FormatNone\<close>; the
  source profile of the new connection carries \<open>f\<close>; the connection's profile list is the
  copy that createRTMPStreamIDHandler made, in which every entry whose format was
  \<open>FormatNone\<close> now carries \<open>f\<close> and the other entries are as they were, so that no entry
  is left with \<open>FormatNone\<close>; and the connection is registered under the manifest of its
  parameters. A connection that was there before the push keeps its source profile, its
  parameters and the contents of its profile list, also when the push is the first for a
  new identity and goes on with that connection.
\<close>

theorem HandlePush_new_connection_formats:
  assumes "HandlePush env s r = (s', resp)"
  shows "(length (cxnHeap s') = Suc (length (cxnHeap s)) \<longrightarrow>
           (\<exists>sA params0.
              createRTMPStreamIDHandler env s (pushURL r) = (sA, Some params0)
            \<and> ProfileExtensionFormat (path_Ext (Path (reqURL r))) \<noteq> FormatNone
            \<and> Format (profile (cxnHeap s' ! length (cxnHeap s)))
                = ProfileExtensionFormat (path_Ext (Path (reqURL r)))
            \<and> Profiles (params (cxnHeap s' ! length (cxnHeap s))) = Profiles params0
            \<and> readSlice s' (Profiles params0)
                = map (\<lambda>v. if Format v = FormatNone
                            then v\<lparr>Format := ProfileExtensionFormat (path_Ext (Path (reqURL r)))\<rparr>
                            else v)
                      (readSlice sA (Profiles params0))
            \<and> (\<forall>v \<in> set (readSlice s' (Profiles params0)). Format v \<noteq> FormatNone)
            \<and> rtmpConnections s' (mid (cxnHeap s' ! length (cxnHeap s)))
                = Some (length (cxnHeap s))))
       \<and> (q < length (cxnHeap s) \<longrightarrow>
            profile (cxnHeap s' ! q) = profile (cxnHeap s ! q)
            \<and> params (cxnHeap s' ! q) = params (cxnHeap s ! q))
       \<and> (a < length (profHeap s) \<longrightarrow> readSlice s' (Array a) = readSlice s (Array a))"
proof (intro conjI impI)
  from HandlePush_keeps[of s env r] assms have keeps: "keepsFormats s s'" by simp
  assume "q < length (cxnHeap s)"
  with keeps show "profile (cxnHeap s' ! q) = profile (cxnHeap s ! q)"
    "params (cxnHeap s' ! q) = params (cxnHeap s ! q)"
    by (simp_all add: keepsFormats_def)
next
  from HandlePush_keeps[of s env r] assms have keeps: "keepsFormats s s'" by simp
  assume "a < length (profHeap s)"
  with keeps show "readSlice s' (Array a) = readSlice s (Array a)"
    by (simp add: keepsFormats_def readSlice_def)
next
  assume grown: "length (cxnHeap s') = Suc (length (cxnHeap s))"
  let ?url = "pushURL r"
  let ?f = "ProfileExtensionFormat (path_Ext (Path (reqURL r)))"
  let ?m0 = "parseManifestID env (Path ?url)"
  let ?n = "length (cxnHeap s)"
  have path: "Path ?url = Path (reqURL r)" by (simp add: pushURL_def)
  from grown have "s' \<noteq> s" by auto
  with HandlePush_cases[OF assms(1)] obtain s1 res where
    bind: "bindConnection env s r ?url ?f ?m0 = (s1, res)" and
    fmt: "?f \<noteq> FormatNone" and
    rest: "case res of
             Inl rsp \<Rightarrow> s' = s1
           | Inr cm \<Rightarrow>
               (\<exists>out. s' = s1\<lparr>cxnHeap :=
                         (cxnHeap s1)[fst cm := applyOutcome out (cxnHeap s1 ! fst cm)]\<rparr>)"
    by (auto simp: path)
  from rest have len1: "length (cxnHeap s') = length (cxnHeap s1)"
    and prof1: "profHeap s' = profHeap s1"
    and def1: "BroadcastJobVideoProfiles s' = BroadcastJobVideoProfiles s1"
    and conn1: "rtmpConnections s' = rtmpConnections s1"
    by (cases res; auto)+
  from len1 grown have grow: "length (cxnHeap s1) = Suc ?n" by simp
  have reg: "registerPush env s r ?url ?f (resolveManifest s ?m0) = (s1, res)"
  proof (cases "rtmpConnections s (resolveManifest s ?m0)")
    case None
    with bind show ?thesis by (simp add: bindConnection_def Let_def)
  next
    case (Some c)
    with bind have "length (cxnHeap s1) = ?n"
      by (auto simp: bindConnection_def Let_def)
    with grow show ?thesis by simp
  qed
  from registerPush_new[OF reg grow] obtain sA params0 mm where
    create: "createRTMPStreamIDHandler env s ?url = (sA, Some params0)" and
    res: "res = Inr (?n, mm)" and
    new: "mid (cxnHeap s1 ! ?n) = ManifestID params0"
         "Format (profile (cxnHeap s1 ! ?n)) = ?f"
         "Profiles (params (cxnHeap s1 ! ?n)) = Profiles params0"
         "readSlice s1 (Profiles params0)
            = map (\<lambda>v. if Format v = FormatNone then v\<lparr>Format := ?f\<rparr> else v)
                  (readSlice sA (Profiles params0))"
         "rtmpConnections s1 (ManifestID params0) = Some ?n"
    by blast
  from rest res obtain out where
    s': "s' = s1\<lparr>cxnHeap := (cxnHeap s1)[?n := applyOutcome out (cxnHeap s1 ! ?n)]\<rparr>"
    by auto
  have cx': "cxnHeap s' ! ?n = applyOutcome out (cxnHeap s1 ! ?n)"
    using grow by (simp add: s')
  have slice: "readSlice s' (Profiles params0) = readSlice s1 (Profiles params0)"
    by (simp add: readSlice_def prof1 def1 split: slice.splits)
  have step: "Format (if Format v = FormatNone then v\<lparr>Format := ?f\<rparr> else v) \<noteq> FormatNone"
    for v :: VideoProfile
    using fmt by simp
  have filled: "\<forall>v \<in> set (readSlice s' (Profiles params0)). Format v \<noteq> FormatNone"
    unfolding slice new(4) using step by (simp only: set_map ball_simps) blast
  show "\<exists>sA params0.
              createRTMPStreamIDHandler env s (pushURL r) = (sA, Some params0)
            \<and> ProfileExtensionFormat (path_Ext (Path (reqURL r))) \<noteq> FormatNone
            \<and> Format (profile (cxnHeap s' ! length (cxnHeap s)))
                = ProfileExtensionFormat (path_Ext (Path (reqURL r)))
            \<and> Profiles (params (cxnHeap s' ! length (cxnHeap s))) = Profiles params0
            \<and> readSlice s' (Profiles params0)
                = map (\<lambda>v. if Format v = FormatNone
                            then v\<lparr>Format := ProfileExtensionFormat (path_Ext (Path (reqURL r)))\<rparr>
                            else v)
                      (readSlice sA (Profiles params0))
            \<and> (\<forall>v \<in> set (readSlice s' (Profiles params0)). Format v \<noteq> FormatNone)
            \<and> rtmpConnections s' (mid (cxnHeap s' ! length (cxnHeap s)))
                = Some (length (cxnHeap s))"
  proof (intro exI conjI)
    show "createRTMPStreamIDHandler env s (pushURL r) = (sA, Some params0)"
      by (rule create)
    show "?f \<noteq> FormatNone"
      by (rule fmt)
    show "Format (profile (cxnHeap s' ! ?n)) = ?f"
      by (simp only: cx' applyOutcome_keeps new(2))
    show "Profiles (params (cxnHeap s' ! ?n)) = Profiles params0"
      by (simp only: cx' applyOutcome_keeps new(3))
    show "readSlice s' (Profiles params0)
            = map (\<lambda>v. if Format v = FormatNone then v\<lparr>Format := ?f\<rparr> else v)
                  (readSlice sA (Profiles params0))"
      by (simp only: slice new(4))
    show "\<forall>v \<in> set (readSlice s' (Profiles params0)). Format v \<noteq> FormatNone"
      by (rule filled)
    show "rtmpConnections s' (mid (cxnHeap s' ! ?n)) = Some ?n"
      by (simp only: cx' applyOutcome_keeps new(1) conn1 new(5))
  qed
qed

text \<open>
  The theorem on the first push of \<open>/live/new/0.mp4\<close>: the new connection has the source
  format MP4 and the two default profiles with the format MP4. And on the push that leads
  from \<open>tsServer\<close> to \<open>mp4OnTs\<close>: the connection \<open>a\<close> keeps its source profile, its parameters and its
  profile list.
\<close>

theorem HandlePush_new_connection_formats_witness:
  "length (cxnHeap (fst (HandlePush testEnv server0 (pushRequest ''/live/new/0.mp4''))))
     = Suc (length (cxnHeap server0))
   \<and> ProfileExtensionFormat (path_Ext (Path (reqURL (pushRequest ''/live/new/0.mp4'')))) = FormatMP4
   \<and> Format (profile (cxnHeap (fst (HandlePush testEnv server0
                                      (pushRequest ''/live/new/0.mp4''))) ! 0)) = FormatMP4
   \<and> readSlice (fst (HandlePush testEnv server0 (pushRequest ''/live/new/0.mp4'')))
        (Profiles (params (cxnHeap (fst (HandlePush testEnv server0
                                          (pushRequest ''/live/new/0.mp4''))) ! 0)))
       = [P240p30fps4x3\<lparr>Format := FormatMP4\<rparr>, P360p30fps16x9\<lparr>Format := FormatMP4\<rparr>]
   \<and> rtmpConnections (fst (HandlePush testEnv server0 (pushRequest ''/live/new/0.mp4''))) ''new''
       = Some 0
   \<and> 0 < length (cxnHeap tsServer)
   \<and> 0 < length (profHeap tsServer)
   \<and> profile (cxnHeap mp4OnTs ! 0)
       = profile (cxnHeap tsServer ! 0)
   \<and> params (cxnHeap mp4OnTs ! 0)
       = params (cxnHeap tsServer ! 0)
   \<and> readSlice mp4OnTs (Array 0)
       = readSlice tsServer (Array 0)"
proof -
  let ?run = "HandlePush testEnv server0 (pushRequest ''/live/new/0.mp4'')"
  have run: "?run = (fst ?run, snd ?run)" by simp
  have grow: "length (cxnHeap (fst ?run)) = Suc (length (cxnHeap server0))"
    by (simp add: model_defs fixture_defs Let_def)
  have ext: "ProfileExtensionFormat (path_Ext (Path (reqURL (pushRequest ''/live/new/0.mp4''))))
               = FormatMP4"
    by (simp add: model_defs fixture_defs)
  have prm: "Profiles (params (cxnHeap (fst ?run) ! 0)) = Array 0"
    by (simp add: model_defs fixture_defs Let_def)
  have heap: "profHeap (fst ?run)
                = [[P240p30fps4x3\<lparr>Format := FormatMP4\<rparr>, P360p30fps16x9\<lparr>Format := FormatMP4\<rparr>]]"
    by (simp add: model_defs fixture_defs Let_def)
  have slice: "readSlice (fst ?run) (Profiles (params (cxnHeap (fst ?run) ! 0)))
                 = [P240p30fps4x3\<lparr>Format := FormatMP4\<rparr>, P360p30fps16x9\<lparr>Format := FormatMP4\<rparr>]"
    by (simp only: prm heap readSlice_def) simp
  have conn: "rtmpConnections (fst ?run) ''new'' = Some 0"
    by (simp add: model_defs fixture_defs Let_def)
  have len0: "length (cxnHeap server0) = 0" by (simp add: server0_def)
  from HandlePush_new_connection_formats[OF run] grow
  have "Format (profile (cxnHeap (fst ?run) ! length (cxnHeap server0)))
          = ProfileExtensionFormat (path_Ext (Path (reqURL (pushRequest ''/live/new/0.mp4''))))"
    by blast
  then have source: "Format (profile (cxnHeap (fst ?run) ! 0)) = FormatMP4"
    by (simp only: len0 ext)
  let ?s1 = "tsServer"
  let ?push = "HandlePush (hookSegEnv ''a'') ?s1 (pushRequest ''/live/b/0.mp4'')"
  have s2: "fst ?push = mp4OnTs"
    by (simp add: mp4OnTs_def run_def)
  have push: "?push = (mp4OnTs, snd ?push)"
    by (simp only: s2[symmetric]) simp
  have q: "0 < length (cxnHeap ?s1)" and a: "0 < length (profHeap ?s1)"
    by (simp_all add: mp4OnTs_server)
  from HandlePush_new_connection_formats[OF push, where q = 0 and a = 0] q a
  have kept: "profile (cxnHeap mp4OnTs ! 0) = profile (cxnHeap ?s1 ! 0)"
    "params (cxnHeap mp4OnTs ! 0) = params (cxnHeap ?s1 ! 0)"
    "readSlice mp4OnTs (Array 0) = readSlice ?s1 (Array 0)"
    by blast+
  show ?thesis
    by (rule conjI[OF grow conjI[OF ext conjI[OF source conjI[OF slice conjI[OF conn
              conjI[OF q conjI[OF a conjI[OF kept(1) conjI[OF kept(2) kept(3)]]]]]]]]])
qed

section \<open>The default profiles\<close>

lemma registerStream_defaults:
  "BroadcastJobVideoProfiles (fst (registerStream env s url m prms)) = BroadcastJobVideoProfiles s"
proof -
  obtain s' res where run: "registerStream env s url m prms = (s', res)"
    by (cases "registerStream env s url m prms") auto
  from registerStream_cases[OF run] have "BroadcastJobVideoProfiles s' = BroadcastJobVideoProfiles s"
    by (auto simp: bindInternalManifest_frame)
  with run show ?thesis by simp
qed

lemma registerPush_defaults:
  "BroadcastJobVideoProfiles (fst (registerPush env s r url format m)) = BroadcastJobVideoProfiles s"
proof -
  obtain sA created where create: "createRTMPStreamIDHandler env s url = (sA, created)"
    by (cases "createRTMPStreamIDHandler env s url") auto
  from createRTMPStreamIDHandler_cases[OF create]
  consider (none) "created = None" "sA = s"
    | (some) params0 profiles where "created = Some params0"
        "sA = s\<lparr>profHeap := profHeap s @ [profiles]\<rparr>"
        "Profiles params0 = Array (length (profHeap s))"
    by blast
  then show ?thesis
  proof cases
    case none
    with create show ?thesis by (simp add: registerPush_def)
  next
    case some
    let ?prms = "pushParams r format params0"
    have "Profiles ?prms = Array (length (profHeap s))"
      using some(3) by (simp add: pushParams_def)
    from prepareStream_Array[OF this, of env sA m format]
    have "BroadcastJobVideoProfiles (prepareStream env sA m format ?prms)
            = BroadcastJobVideoProfiles sA"
      by (auto simp: endOldStream_frame)
    with create some(1,2) show ?thesis
      by (simp add: registerPush_def Let_def registerStream_defaults)
  qed
qed

lemma bindConnection_defaults:
  "BroadcastJobVideoProfiles (fst (bindConnection env s r url format m))
     = BroadcastJobVideoProfiles s"
  by (simp add: bindConnection_def Let_def registerPush_defaults split: option.splits)

lemma HandlePush_defaults:
  "BroadcastJobVideoProfiles (fst (HandlePush env s r)) = BroadcastJobVideoProfiles s"
proof -
  obtain s' resp where run: "HandlePush env s r = (s', resp)"
    by (cases "HandlePush env s r") auto
  from HandlePush_cases[OF run] have "BroadcastJobVideoProfiles s' = BroadcastJobVideoProfiles s"
  proof (elim disjE exE conjE)
    assume "s' = s"
    then show ?thesis by simp
  next
    fix s1 res
    assume bind: "bindConnection env s r (pushURL r)
                    (ProfileExtensionFormat (path_Ext (Path (pushURL r))))
                    (parseManifestID env (Path (pushURL r))) = (s1, res)"
      and rest: "case res of
                   Inl rsp \<Rightarrow> s' = s1
                 | Inr cm \<Rightarrow>
                     (\<exists>out. s' = s1\<lparr>cxnHeap :=
                               (cxnHeap s1)[fst cm := applyOutcome out (cxnHeap s1 ! fst cm)]\<rparr>)"
    from rest have "BroadcastJobVideoProfiles s' = BroadcastJobVideoProfiles s1"
      by (cases res) auto
    also from bind have "\<dots> = BroadcastJobVideoProfiles s"
      using bindConnection_defaults[of env s r "pushURL r"
              "ProfileExtensionFormat (path_Ext (Path (pushURL r)))"
              "parseManifestID env (Path (pushURL r))"]
      by simp
    finally show ?thesis .
  qed
  with run show ?thesis by simp
qed

lemma step_defaults: "BroadcastJobVideoProfiles (step s x) = BroadcastJobVideoProfiles s"
  by (cases x)
     (simp_all add: HandlePush_defaults reaperTick_def endRTMPStreamHandler_def
        removeRTMPStream_frame Let_def)

lemma run_defaults: "BroadcastJobVideoProfiles (run ops s) = BroadcastJobVideoProfiles s"
  unfolding run_def by (induction ops arbitrary: s) (simp_all add: step_defaults)

lemma createRTMPStreamIDHandler_copy:
  assumes "createRTMPStreamIDHandler env s url = (s1, Some prms)"
      and "authenticateStream env (URL_String env url) = Inr None"
  shows "readSlice s1 (Profiles prms) = BroadcastJobVideoProfiles s"
  using assms
  by (auto simp: createRTMPStreamIDHandler_def webhookParams_def readSlice_def Let_def
           split: if_splits)

text \<open>
  C3. After any run of pushes (and of watchdog ticks and stream ends) the default
  profiles are what they were; in particular, when every default profile had the format
  \<open>FormatNone\<close>, every one still has it. The profile list of the parameters that
  createRTMPStreamIDHandler returns is a new array, never the array of the defaults, and
  when the webhook has nothing to say it holds a copy of the defaults.
\<close>

theorem BroadcastJobVideoProfiles_unchanged:
  "BroadcastJobVideoProfiles (run ops s) = BroadcastJobVideoProfiles s
   \<and> ((\<forall>v \<in> set (BroadcastJobVideoProfiles s). Format v = FormatNone) \<longrightarrow>
        (\<forall>v \<in> set (BroadcastJobVideoProfiles (run ops s)). Format v = FormatNone))
   \<and> (createRTMPStreamIDHandler env s0 url = (s1, Some prms) \<longrightarrow>
        Profiles prms = Array (length (profHeap s0)) \<and> Profiles prms \<noteq> DefaultProfiles
        \<and> BroadcastJobVideoProfiles s1 = BroadcastJobVideoProfiles s0
        \<and> (authenticateStream env (URL_String env url) = Inr None \<longrightarrow>
             readSlice s1 (Profiles prms) = BroadcastJobVideoProfiles s0))"
proof (intro conjI impI)
  show "BroadcastJobVideoProfiles (run ops s) = BroadcastJobVideoProfiles s"
    by (rule run_defaults)
next
  assume "\<forall>v \<in> set (BroadcastJobVideoProfiles s). Format v = FormatNone"
  then show "\<forall>v \<in> set (BroadcastJobVideoProfiles (run ops s)). Format v = FormatNone"
    by (simp only: run_defaults)
next
  assume create: "createRTMPStreamIDHandler env s0 url = (s1, Some prms)"
  from createRTMPStreamIDHandler_cases[OF create]
  show "Profiles prms = Array (length (profHeap s0))" "Profiles prms \<noteq> DefaultProfiles"
       "BroadcastJobVideoProfiles s1 = BroadcastJobVideoProfiles s0"
    by auto
  assume "authenticateStream env (URL_String env url) = Inr None"
  with create show "readSlice s1 (Profiles prms) = BroadcastJobVideoProfiles s0"
    by (rule createRTMPStreamIDHandler_copy)
qed

text \<open>The theorem on the pushes of \<open>/live/seg/1.ts\<close> and \<open>/live/new/0.mp4\<close> to a new
  server: the second connection has the two default profiles with the format MP4 and
  the defaults still have \<open>FormatNone\<close>.\<close>

theorem BroadcastJobVideoProfiles_unchanged_witness:
  "map Format (BroadcastJobVideoProfiles server0) = [FormatNone, FormatNone]
   \<and> BroadcastJobVideoProfiles
        (run [Push testEnv (pushRequest ''/live/seg/1.ts''),
              Push testEnv (pushRequest ''/live/new/0.mp4'')] server0)
       = [P240p30fps4x3, P360p30fps16x9]
   \<and> map Format (BroadcastJobVideoProfiles
                    (run [Push testEnv (pushRequest ''/live/seg/1.ts''),
                          Push testEnv (pushRequest ''/live/new/0.mp4'')] server0))
       = [FormatNone, FormatNone]
   \<and> profHeap (run [Push testEnv (pushRequest ''/live/seg/1.ts''),
                    Push testEnv (pushRequest ''/live/new/0.mp4'')] server0)
       = [[P240p30fps4x3\<lparr>Format := FormatMPEGTS\<rparr>, P360p30fps16x9\<lparr>Format := FormatMPEGTS\<rparr>],
          [P240p30fps4x3\<lparr>Format := FormatMP4\<rparr>, P360p30fps16x9\<lparr>Format := FormatMP4\<rparr>]]
   \<and> authenticateStream testEnv
        (URL_String testEnv (pushURL (pushRequest ''/live/seg/1.ts''))) = Inr None
   \<and> snd (createRTMPStreamIDHandler testEnv server0 (pushURL (pushRequest ''/live/seg/1.ts'')))
       = Some \<lparr>ManifestID = ''seg'', RtmpKey = ''1'', Profiles = Array 0, pResolution = [],
               pFormat = FormatNone, OS = None, RecordOS = None, Capabilities = []\<rparr>
   \<and> readSlice (fst (createRTMPStreamIDHandler testEnv server0
                       (pushURL (pushRequest ''/live/seg/1.ts''))))
        (Array 0) = BroadcastJobVideoProfiles server0"
proof -
  let ?ops = "[Push testEnv (pushRequest ''/live/seg/1.ts''),
               Push testEnv (pushRequest ''/live/new/0.mp4'')]"
  let ?url = "pushURL (pushRequest ''/live/seg/1.ts'')"
  let ?prms = "\<lparr>ManifestID = ''seg'', RtmpKey = ''1'', Profiles = Array 0, pResolution = [],
                pFormat = FormatNone, OS = None, RecordOS = None, Capabilities = []\<rparr>"
  have none: "\<forall>v \<in> set (BroadcastJobVideoProfiles server0). Format v = FormatNone"
    by (simp add: fixture_defs)
  have defaults: "BroadcastJobVideoProfiles server0 = [P240p30fps4x3, P360p30fps16x9]"
    by (simp add: server0_def)
  have heap: "profHeap (run ?ops server0)
       = [[P240p30fps4x3\<lparr>Format := FormatMPEGTS\<rparr>, P360p30fps16x9\<lparr>Format := FormatMPEGTS\<rparr>],
          [P240p30fps4x3\<lparr>Format := FormatMP4\<rparr>, P360p30fps16x9\<lparr>Format := FormatMP4\<rparr>]]"
    by (simp add: model_defs fixture_defs Let_def)
  have auth: "authenticateStream testEnv (URL_String testEnv ?url) = Inr None"
    by (simp add: authenticateStream_def testEnv_def)
  have created: "snd (createRTMPStreamIDHandler testEnv server0 ?url) = Some ?prms"
    by (simp add: model_defs fixture_defs Let_def)
  then have create: "createRTMPStreamIDHandler testEnv server0 ?url
                  = (fst (createRTMPStreamIDHandler testEnv server0 ?url), Some ?prms)"
    by (simp add: prod_eq_iff)
  note inst = BroadcastJobVideoProfiles_unchanged
               [of ?ops server0 testEnv server0 ?url
                   "fst (createRTMPStreamIDHandler testEnv server0 ?url)" ?prms]
  from inst defaults have same: "BroadcastJobVideoProfiles (run ?ops server0)
                                  = [P240p30fps4x3, P360p30fps16x9]"
    by simp
  from inst none have "\<forall>v \<in> set (BroadcastJobVideoProfiles (run ?ops server0)).
                         Format v = FormatNone"
    by blast
  with same have still: "map Format (BroadcastJobVideoProfiles (run ?ops server0))
                           = [FormatNone, FormatNone]"
    by simp
  have none': "map Format (BroadcastJobVideoProfiles server0) = [FormatNone, FormatNone]"
    by (simp add: fixture_defs)
  from inst create auth
  have copy: "readSlice (fst (createRTMPStreamIDHandler testEnv server0 ?url)) (Array 0)
                = BroadcastJobVideoProfiles server0"
    by simp
  show ?thesis
    by (rule conjI[OF none' conjI[OF same conjI[OF still conjI[OF heap
              conjI[OF auth conjI[OF created copy]]]]]])
qed

section \<open>A new external identity for a live manifest\<close>

lemma rebound1_registry:
  "rtmpConnections rebound1 = [''intmid'' \<mapsto> 0]"
  "internalManifests rebound1 = [''extmid1'' \<mapsto> ''intmid'']"
  "closed (stream (cxnHeap rebound1 ! 0)) = False"
  "length (cxnHeap rebound1) = 1"
  by (simp_all add: model_defs fixture_defs Let_def)

lemma rebound2_registry:
  "rtmpConnections rebound2 = [''intmid'' \<mapsto> 1]"
  "internalManifests rebound2 = [''extmid2'' \<mapsto> ''intmid'']"
  "closed (stream (cxnHeap rebound2 ! 0)) = True"
  "smCleaned (sessManager (cxnHeap rebound2 ! 0)) = True"
  "closed (stream (cxnHeap rebound2 ! 1)) = False"
  "reapers rebound2 = [(''intmid'', ''extmid1''), (''intmid'', ''extmid2'')]"
  by (simp_all add: model_defs fixture_defs Let_def)

text \<open>
  C1, as stated, asks that the connection registered under the internal identity is the
  same record before and after, and is not closed. After the push of
  \<open>/live/extmid1/0.ts\<close> the manifest \<open>intmid\<close> is served by record 0; after the push of
  \<open>/live/extmid2/0.ts\<close> the binding of \<open>extmid1\<close> is gone, record 0 is closed and its
  session manager cleaned up, and \<open>intmid\<close> is served by the new record 1.
\<close>

theorem rebind_closes_connection_counterexample:
  "rtmpConnections rebound1 ''intmid'' = Some 0
   \<and> internalManifests rebound1 ''extmid1'' = Some ''intmid''
   \<and> \<not> closed (stream (cxnHeap rebound1 ! 0))
   \<and> internalManifests rebound2 ''extmid1'' = None
   \<and> internalManifests rebound2 ''extmid2'' = Some ''intmid''
   \<and> rtmpConnections rebound2 ''intmid'' \<noteq> rtmpConnections rebound1 ''intmid''
   \<and> closed (stream (cxnHeap rebound2 ! 0))
   \<and> smCleaned (sessManager (cxnHeap rebound2 ! 0))"
  by (simp add: rebound1_registry rebound2_registry)

lemma HandlePush_bind:
  assumes "Method r = ''POST'' \<or> Method r = ''PUT''" and "Body r = Inr body"
      and "ProfileExtensionFormat (path_Ext (Path (reqURL r))) \<noteq> FormatNone"
      and "parseManifestID env (Path (reqURL r)) \<noteq> []"
  shows "HandlePush env s r
           = (case bindConnection env s r (pushURL r)
                     (ProfileExtensionFormat (path_Ext (Path (reqURL r))))
                     (parseManifestID env (Path (reqURL r))) of
                (s1, Inl resp) \<Rightarrow> (s1, resp)
              | (s1, Inr (cxn, m)) \<Rightarrow>
                  processPush env s1 r (pushURL r) (path_Ext (Path (reqURL r))) body cxn m)"
proof -
  have "Path (pushURL r) = Path (reqURL r)" by (simp add: pushURL_def)
  with assms show ?thesis by (auto simp: HandlePush_def Let_def)
qed

lemma registerConnection_new:
  assumes "NodeStorage env \<noteq> None" and "\<forall>q. \<not> isl (JobCapabilities env q)"
      and "AppData st = Some prms" and "rtmpConnections s (ManifestID prms) = None"
  shows "\<exists>s'. registerConnection env s st = (s', Some (length (cxnHeap s)), None)"
proof -
  from assms(1) obtain ns where ns: "NodeStorage env = Some ns" by auto
  let ?p1 = "if pResolution prms = [] then
               prms\<lparr>pResolution := showNat (Width st) @ ''x'' @ showNat (Height st)\<rparr>
             else prms"
  let ?p2 = "?p1\<lparr>OS := Some (case OS ?p1 of None \<Rightarrow> NewSession ns (ManifestID prms)
                                | Some oss \<Rightarrow> oss)\<rparr>"
  from assms(2) have "\<not> isl (JobCapabilities env ?p2)" by (rule spec)
  then obtain caps where caps: "JobCapabilities env ?p2 = Inr caps"
    by (cases "JobCapabilities env ?p2") simp_all
  from ns caps assms(3,4) show ?thesis
    by (simp add: registerConnection_def Let_def)
qed

lemma registerStream_new:
  assumes "NodeStorage env \<noteq> None" and "\<forall>q. \<not> isl (JobCapabilities env q)"
      and "rtmpConnections s (ManifestID prms) = None"
  shows "\<exists>cxn. mid cxn = ManifestID prms \<and> pl cxn \<noteq> None \<and> \<not> closed (stream cxn)
           \<and> registerStream env s url m prms
               = (fst (bindInternalManifest
                         (s\<lparr>cxnHeap := cxnHeap s @ [cxn],
                            rtmpConnections :=
                              (rtmpConnections s)(ManifestID prms \<mapsto> length (cxnHeap s)),
                            lastManifestID := ManifestID prms,
                            reapers := reapers s @ [(ManifestID prms, m)]\<rparr>)
                         (length (cxnHeap s)) m),
                  Inr (length (cxnHeap s), if ManifestID prms \<noteq> m then ManifestID prms else m))"
proof -
  let ?st = "\<lparr>AppData = Some prms, Width = 0, Height = 0, closed = False\<rparr>"
  obtain s4 where reg: "registerConnection env s ?st = (s4, Some (length (cxnHeap s)), None)"
    using registerConnection_new[OF assms(1,2), of ?st prms s] assms(3) by auto
  then have inr: "\<not> isl (snd (registerStream env s url m prms))"
    by (simp add: registerStream_def Let_def split: prod.splits)
  obtain s' res where run: "registerStream env s url m prms = (s', res)"
    by (cases "registerStream env s url m prms") auto
  from registerStream_cases[OF run] inr run assms(3) show ?thesis
    by auto
qed

text \<open>
  C1, amended. Let a push arrive for an external identity \<open>m\<close> that is not bound and has
  no connection, let the parameters that createRTMPStreamIDHandler returns name the
  manifest \<open>i\<close>, different from \<open>m\<close>, with a live connection (record \<open>p\<close>), and let the
  range loop find the external identity \<open>old\<close> bound to \<open>i\<close>. Then, registration
  succeeding, the binding of \<open>old\<close> is removed together with the connection: record
  \<open>p\<close> is closed and its session manager and playlist are cleaned up; a new record is
  registered under \<open>i\<close>, \<open>m\<close> is bound to \<open>i\<close>, and a watchdog is started for it.
\<close>

theorem HandlePush_rebind_replaces_connection:
  assumes run: "HandlePush env s r = (s', resp)"
      and request: "Method r = ''POST'' \<or> Method r = ''PUT''" "Body r = Inr body"
                   "ProfileExtensionFormat (path_Ext (Path (reqURL r))) \<noteq> FormatNone"
      and ext: "parseManifestID env (Path (reqURL r)) = m" "m \<noteq> []"
               "internalManifests s m = None" "rtmpConnections s m = None"
      and hook: "createRTMPStreamIDHandler env s (pushURL r) = (sA, Some params0)"
                "ManifestID params0 = i" "i \<noteq> m"
      and live: "rtmpConnections s i = Some p" "p < length (cxnHeap s)"
                "pl (cxnHeap s ! p) \<noteq> None"
      and old: "findOldStreamID (rangeOrder env) (internalManifests s) i = old" "old \<noteq> []"
      and reg: "NodeStorage env \<noteq> None" "\<forall>q. \<not> isl (JobCapabilities env q)"
  shows "internalManifests s old = Some i
         \<and> internalManifests s' old = None
         \<and> internalManifests s' m = Some i
         \<and> rtmpConnections s' i = Some (length (cxnHeap s))
         \<and> rtmpConnections s' i \<noteq> rtmpConnections s i
         \<and> closed (stream (cxnHeap s' ! p))
         \<and> smCleaned (sessManager (cxnHeap s' ! p))
         \<and> (\<exists>pm. pl (cxnHeap s' ! p) = Some pm \<and> plCleaned pm)
         \<and> \<not> closed (stream (cxnHeap s' ! length (cxnHeap s)))
         \<and> mid (cxnHeap s' ! length (cxnHeap s)) = i
         \<and> reapers s' = reapers s @ [(i, m)]"
proof -
  let ?url = "pushURL r"
  let ?f = "ProfileExtensionFormat (path_Ext (Path (reqURL r)))"
  let ?n = "length (cxnHeap s)"
  let ?prms = "pushParams r ?f params0"
  have prms: "ManifestID ?prms = i" by (simp add: pushParams_def hook(2))
  from old findOldStreamID_result[of "rangeOrder env" "internalManifests s" i]
  have bound: "internalManifests s old = Some i" by auto
  with ext(3) have oldm: "old \<noteq> m" by auto
  txt \<open>the parameters are created\<close>
  from createRTMPStreamIDHandler_cases[OF hook(1)] obtain profiles where
    sA: "sA = s\<lparr>profHeap := profHeap s @ [profiles]\<rparr>" and
    arr: "Profiles params0 = Array (length (profHeap s))"
    by auto
  have parr: "Profiles ?prms = Array (length (profHeap s))"
    using arr by (simp add: pushParams_def)
  txt \<open>the older stream is ended\<close>
  let ?s2 = "sA\<lparr>cxnHeap := (cxnHeap sA)[p := endConnection (cxnHeap sA ! p)],
                rtmpConnections := (rtmpConnections sA)(i := None),
                internalManifests := (internalManifests sA)(old := None)\<rparr>"
  have rm: "removeRTMPStream sA old = (?s2, None)"
    using bound live by (simp add: removeRTMPStream_def resolveManifest_def sA)
  have s2: "endOldStream env sA m ?prms = ?s2"
    using hook(3) live(1) ext(3) old oldm rm
    by (simp add: endOldStream_def prms sA Let_def)
  txt \<open>the formats are set\<close>
  obtain ph where sB: "prepareStream env sA m ?f ?prms = ?s2\<lparr>profHeap := ph\<rparr>"
    using prepareStream_Array[OF parr, of env sA m ?f] s2 by auto
  let ?sB = "?s2\<lparr>profHeap := ph\<rparr>"
  txt \<open>the stream is registered and bound\<close>
  have free: "rtmpConnections ?sB (ManifestID ?prms) = None"
    by (simp add: prms)
  obtain cxn where cxn: "mid cxn = i" "pl cxn \<noteq> None" "\<not> closed (stream cxn)" and
    rs: "registerStream env ?sB ?url m ?prms
           = (fst (bindInternalManifest
                     (?sB\<lparr>cxnHeap := cxnHeap ?sB @ [cxn],
                          rtmpConnections :=
                            (rtmpConnections ?sB)(ManifestID ?prms \<mapsto> length (cxnHeap ?sB)),
                          lastManifestID := ManifestID ?prms,
                          reapers := reapers ?sB @ [(ManifestID ?prms, m)]\<rparr>)
                     (length (cxnHeap ?sB)) m),
              Inr (length (cxnHeap ?sB),
                   if ManifestID ?prms \<noteq> m then ManifestID ?prms else m))"
    using registerStream_new[OF reg free, of ?url m] prms by auto
  have lenB: "length (cxnHeap ?sB) = ?n" by (simp add: sA)
  let ?s6 = "?sB\<lparr>cxnHeap := cxnHeap ?sB @ [cxn],
                 rtmpConnections := (rtmpConnections ?sB)(i \<mapsto> ?n),
                 lastManifestID := i,
                 reapers := reapers ?sB @ [(i, m)],
                 internalManifests := (internalManifests ?sB)(m \<mapsto> i)\<rparr>"
  have bind: "registerPush env s r ?url ?f m = (?s6, Inr (?n, i))"
    using hook(1,3) cxn(1) rs lenB
    by (simp add: registerPush_def Let_def sB prms bindInternalManifest_def nth_append)
  have bc: "bindConnection env s r ?url ?f m = (?s6, Inr (?n, i))"
    using ext(3,4) bind by (simp add: bindConnection_def resolveManifest_def)
  txt \<open>the segment is processed\<close>
  from run request ext(1,2) bc
  have proc: "processPush env ?s6 r ?url (path_Ext (Path (reqURL r))) body ?n i = (s', resp)"
    by (simp add: HandlePush_bind)
  obtain out where
    s': "s' = ?s6\<lparr>cxnHeap := (cxnHeap ?s6)[?n := applyOutcome out (cxnHeap ?s6 ! ?n)]\<rparr>"
    using processPush_state[of env ?s6 r ?url "path_Ext (Path (reqURL r))" body ?n i] proc
    by auto
  have pn: "p \<noteq> ?n" using live(2) by simp
  have heap_p: "cxnHeap s' ! p = endConnection (cxnHeap s ! p)"
    using live(2) pn by (simp add: s' sA nth_append)
  have heap_n: "cxnHeap s' ! ?n = applyOutcome out cxn"
    by (simp add: s' sA nth_append)
  from live(3) obtain pm where pm: "pl (cxnHeap s ! p) = Some pm" by auto
  show ?thesis
  proof (intro conjI)
    show "internalManifests s old = Some i" by (rule bound)
    show "internalManifests s' old = None" using oldm by (simp add: s' sA)
    show "internalManifests s' m = Some i" by (simp add: s' sA)
    show "rtmpConnections s' i = Some ?n" by (simp add: s' sA)
    show "rtmpConnections s' i \<noteq> rtmpConnections s i" using pn live(1) by (simp add: s' sA)
    show "closed (stream (cxnHeap s' ! p))" by (simp add: heap_p endConnection_def)
    show "smCleaned (sessManager (cxnHeap s' ! p))" by (simp add: heap_p endConnection_def)
    show "\<exists>pm. pl (cxnHeap s' ! p) = Some pm \<and> plCleaned pm"
      by (simp add: heap_p endConnection_def pm)
    show "\<not> closed (stream (cxnHeap s' ! ?n))"
      using cxn(3) by (simp add: heap_n applyOutcome_keeps)
    show "mid (cxnHeap s' ! ?n) = i"
      using cxn(1) by (simp add: heap_n applyOutcome_keeps)
    show "reapers s' = reapers s @ [(i, m)]" by (simp add: s' sA)
  qed
qed

text \<open>The theorem on the push of \<open>/live/extmid2/0.ts\<close> to the server on which \<open>extmid1\<close>
  is bound to the live manifest \<open>intmid\<close>.\<close>

theorem HandlePush_rebind_replaces_connection_witness:
  "internalManifests rebound1 ''extmid2'' = None
   \<and> rtmpConnections rebound1 ''extmid2'' = None
   \<and> rtmpConnections rebound1 ''intmid'' = Some 0
   \<and> findOldStreamID (rangeOrder (hookEnv ''intmid'' [''extmid1'']))
        (internalManifests rebound1) ''intmid'' = ''extmid1''
   \<and> internalManifests rebound1 ''extmid1'' = Some ''intmid''
   \<and> internalManifests rebound2 ''extmid1'' = None
   \<and> internalManifests rebound2 ''extmid2'' = Some ''intmid''
   \<and> rtmpConnections rebound2 ''intmid'' = Some (length (cxnHeap rebound1))
   \<and> closed (stream (cxnHeap rebound2 ! 0))
   \<and> \<not> closed (stream (cxnHeap rebound2 ! length (cxnHeap rebound1)))
   \<and> reapers rebound2 = reapers rebound1 @ [(''intmid'', ''extmid2'')]"
proof -
  let ?env = "hookEnv ''intmid'' [''extmid1'']"
  let ?r = "pushRequest ''/live/extmid2/0.ts''"
  have run: "HandlePush ?env rebound1 ?r = (rebound2, snd (HandlePush ?env rebound1 ?r))"
    by (simp add: rebound2_def run_def)
  have request: "Method ?r = ''POST'' \<or> Method ?r = ''PUT''" "Body ?r = Inr []"
    "ProfileExtensionFormat (path_Ext (Path (reqURL ?r))) \<noteq> FormatNone"
    by (simp_all add: model_defs fixture_defs)
  have ext: "parseManifestID ?env (Path (reqURL ?r)) = ''extmid2''" "''extmid2'' \<noteq> []"
    "internalManifests rebound1 ''extmid2'' = None" "rtmpConnections rebound1 ''extmid2'' = None"
    by (simp_all add: rebound1_registry) (simp add: model_defs fixture_defs)
  have "\<exists>params0. snd (createRTMPStreamIDHandler ?env rebound1 (pushURL ?r)) = Some params0
          \<and> ManifestID params0 = ''intmid''"
    by (simp add: createRTMPStreamIDHandler_def authenticateStream_def webhookParams_def
          jsonProfileToVideoProfile_def parseManifestID_def URL_String_def pushURL_def
          path_Ext_def TrimSuffix_def rebound1_registry testEnv_def hookEnv_def
          pushRequest_def stubParseStreamID_def stubUnmarshal_def Let_def)
  then obtain params0 where
    hook: "createRTMPStreamIDHandler ?env rebound1 (pushURL ?r)
             = (fst (createRTMPStreamIDHandler ?env rebound1 (pushURL ?r)), Some params0)"
          "ManifestID params0 = ''intmid''" "''intmid'' \<noteq> ''extmid2''"
    by (auto simp: prod_eq_iff)
  have live: "rtmpConnections rebound1 ''intmid'' = Some 0" "0 < length (cxnHeap rebound1)"
    by (simp_all add: rebound1_registry)
  have playlist: "pl (cxnHeap rebound1 ! 0) \<noteq> None"
    by (simp add: model_defs fixture_defs Let_def)
  have old: "findOldStreamID (rangeOrder ?env) (internalManifests rebound1) ''intmid''
               = ''extmid1''" "''extmid1'' \<noteq> []"
    by (simp_all add: rebound1_registry hookEnv_def)
  have reg: "NodeStorage ?env \<noteq> None" "\<forall>q. \<not> isl (JobCapabilities ?env q)"
    by (simp_all add: hookEnv_def testEnv_def)
  from HandlePush_rebind_replaces_connection
         [OF run request ext hook live playlist old reg]
       ext(3,4) live(1) old(1)
  show ?thesis by simp
qed

section \<open>The invariant of the registry\<close>


















section \<open>The liveness kicker\<close>















end
